theory Spec2Isabelle
  imports Main "HOL-Library.Sublist" "HOL-Library.AList"
begin

text \<open>
  AutoCodeGuard clones a repository into a temporary directory, walks the checkout,
  hands every source file to the analyzer of its language, which runs external linters
  and counts markers in their output, and returns a report per language. This theory
  embeds \<^verbatim>\<open>src/repo_analyzer.py\<close> and the five analyzers under \<^verbatim>\<open>src/analyzers/\<close> and
  proves properties of the report, the events, the tool invocations and the temporary
  directory.
\<close>

section \<open>Python strings\<close>

text \<open>
  A Python \<^verbatim>\<open>str\<close> is a sequence of Unicode code points. Tool output, file names and
  messages are therefore lists of code points; \<open>lit\<close> turns an ASCII literal of the
  source into such a list.
\<close>

type_synonym codepoint = nat
type_synonym pystr = "codepoint list"

definition lit :: "string \<Rightarrow> pystr" where
  "lit s = map of_char s"

text \<open>\<^verbatim>\<open>s.endswith(suffix)\<close>.\<close>

definition endswith :: "pystr \<Rightarrow> pystr \<Rightarrow> bool" where
  "endswith s sfx = suffix sfx s"

text \<open>
  \<^verbatim>\<open>s.count(sub)\<close>: the number of non-overlapping occurrences of \<open>sub\<close> in \<open>s\<close>,
  found scanning from the left; after a match the scan resumes behind it, which is the
  skip counter \<open>k\<close> below. For the empty \<open>sub\<close> Python answers \<open>len(s) + 1\<close>.
\<close>

fun count_scan :: "pystr \<Rightarrow> nat \<Rightarrow> pystr \<Rightarrow> nat" where
  "count_scan sub k [] = 0"
| "count_scan sub k (c # cs) =
     (if 0 < k then count_scan sub (k - 1) cs
      else if prefix sub (c # cs) then 1 + count_scan sub (length sub - 1) cs
      else count_scan sub 0 cs)"

definition str_count :: "pystr \<Rightarrow> pystr \<Rightarrow> nat" where
  "str_count s sub = (if sub = [] then length s + 1 else count_scan sub 0 s)"

text \<open>
  The number of positions of \<open>s\<close> at which \<open>sub\<close> occurs, overlapping or not: what
  "the number of occurrences" means without reference to the scanning order.
\<close>

fun occurrences :: "pystr \<Rightarrow> pystr \<Rightarrow> nat" where
  "occurrences sub [] = (if sub = [] then 1 else 0)"
| "occurrences sub (c # cs) = (if prefix sub (c # cs) then 1 else 0) + occurrences sub cs"

text \<open>
  \<^verbatim>\<open>str.isspace\<close> on one code point (CPython's \<^verbatim>\<open>_PyUnicode_IsWhitespace\<close>), which
  decides what \<^verbatim>\<open>s.strip()\<close> removes at both ends.
\<close>

definition is_whitespace :: "codepoint \<Rightarrow> bool" where
  "is_whitespace c \<longleftrightarrow>
     (0x09 \<le> c \<and> c \<le> 0x0D) \<or> (0x1C \<le> c \<and> c \<le> 0x20) \<or> c = 0x85 \<or> c = 0xA0 \<or>
     c = 0x1680 \<or> (0x2000 \<le> c \<and> c \<le> 0x200A) \<or> c = 0x2028 \<or> c = 0x2029 \<or>
     c = 0x202F \<or> c = 0x205F \<or> c = 0x3000"

definition strip :: "pystr \<Rightarrow> pystr" where
  "strip s = rev (dropWhile is_whitespace (rev (dropWhile is_whitespace s)))"

text \<open>
  \<^verbatim>\<open>s.splitlines()\<close>: the line boundaries are those of CPython's
  \<^verbatim>\<open>_PyUnicode_IsLinebreak\<close>, a carriage return followed by a line feed is one boundary, and
  a boundary at the very end opens no further line. \<open>cur\<close> is the line read so far.
\<close>

definition is_linebreak :: "codepoint \<Rightarrow> bool" where
  "is_linebreak c \<longleftrightarrow>
     (0x0A \<le> c \<and> c \<le> 0x0D) \<or> (0x1C \<le> c \<and> c \<le> 0x1E) \<or> c = 0x85 \<or>
     c = 0x2028 \<or> c = 0x2029"

fun splitlines_from :: "pystr \<Rightarrow> pystr \<Rightarrow> pystr list" where
  "splitlines_from cur [] = (if cur = [] then [] else [cur])"
| "splitlines_from cur [c] = (if is_linebreak c then [cur] else [cur @ [c]])"
| "splitlines_from cur (c # d # cs) =
     (if is_linebreak c then
        (if c = 0x0D \<and> d = 0x0A then cur # splitlines_from [] cs
         else cur # splitlines_from [] (d # cs))
      else splitlines_from (cur @ [c]) (d # cs))"

definition splitlines :: "pystr \<Rightarrow> pystr list" where
  "splitlines s = splitlines_from [] s"

text \<open>
  \<^verbatim>\<open>os.path.join(a, b)\<close> on POSIX: an absolute second component replaces the first, and
  a separator is inserted unless the first is empty or already ends in one.
\<close>

definition path_join :: "pystr \<Rightarrow> pystr \<Rightarrow> pystr" where
  "path_join a b =
     (if prefix (lit ''/'') b then b
      else if a = [] \<or> suffix (lit ''/'') a then a @ b
      else a @ lit ''/'' @ b)"

section \<open>Data model\<close>

text \<open>
  An exception that \<^verbatim>\<open>except Exception as e\<close> catches, carrying \<^verbatim>\<open>str(e)\<close>.
  Interrupts (\<^verbatim>\<open>KeyboardInterrupt\<close>, \<^verbatim>\<open>SystemExit\<close>) are outside the model.
\<close>

datatype exn = Exception (str: pystr)

text \<open>What \<^verbatim>\<open>subprocess.run(..., capture_output=True, text=True)\<close> returns.\<close>

record completed_process =
  returncode :: int
  stdout :: pystr
  stderr :: pystr

text \<open>One call of \<^verbatim>\<open>subprocess.run\<close>: the argument vector and the \<^verbatim>\<open>cwd\<close> keyword.\<close>

record invocation =
  argv :: "pystr list"
  cwd :: "pystr option"

text \<open>
  The dictionary an analyzer returns, by its keys; \<open>rating\<close> is \<open>None\<close> where the
  dictionary has no such key.
\<close>

record file_result =
  "file" :: pystr
  issues :: pystr
  error_count :: nat
  warning_count :: nat
  rating :: "pystr option"

text \<open>
  The report is a Python dictionary (insertion-ordered) from a name to a list; the list
  holds analyzer results, or the message of a failed clone.
\<close>

datatype entry = Result file_result | Message pystr

type_synonym report = "(pystr \<times> entry list) list"

text \<open>
  A directory of the checkout: the names of its files and its sub-directories, both in
  the order in which \<^verbatim>\<open>os.walk\<close> lists them.
\<close>

datatype dir = Dir (dir_files: "pystr list") (dir_subdirs: "(pystr \<times> dir) list")

text \<open>
  The messages handed to the two callbacks. Each constructor stands for one format
  string of the source, its arguments being the interpolated values:
  \<^item> \<open>Cloning url\<close>: "Cloning repository from \{repo_url\}...";
  \<^item> \<open>Clone_error m\<close>: "Clone error: \{str(e)\}";
  \<^item> \<open>Skipping_config name\<close>: "Skipping linter config file: \{file\}";
  \<^item> \<open>Processing p\<close>: "Processing \{rel_path\}...";
  \<^item> \<open>Skipping_minified p\<close>: "Skipping minified file: \{...\}";
  \<^item> \<open>Cleaned_up d\<close>: "Cleaned up temporary directory: \{temp_dir\}";
  \<^item> \<open>Running_python\<close>, \<open>Running_html\<close>, \<open>Running_css\<close>, \<open>Running_java\<close>: the
    "Running ... analysis..." line of each analyzer;
  \<^item> \<open>Completed lang p\<close>: "\{lang\} analysis completed for \{rel_path\}";
  \<^item> \<open>Failed lang m\<close>: "\{lang\} analysis failed: \{str(e)\}";
  \<^item> \<open>Cloning_complete\<close>: "Cloning complete. Starting analysis...";
  \<^item> \<open>Analyzing k n p\<close>: "Analyzing (\{processed_files\}/\{total_files\}): \{rel_path\}".
\<close>

datatype log_message =
    Cloning pystr
  | Clone_error pystr
  | Skipping_config pystr
  | Processing pystr
  | Skipping_minified pystr
  | Cleaned_up pystr
  | Running_python
  | Running_html
  | Running_css
  | Running_java
  | Completed pystr pystr
  | Failed pystr pystr

datatype status_message = Cloning_complete | Analyzing nat nat pystr

datatype event = Log log_message | Status status_message

text \<open>
  What a run can observe of its surroundings: the outcome of each tool invocation
  (\<open>Inl\<close> when \<^verbatim>\<open>subprocess.run\<close> itself raises, as it does for a missing executable),
  the outcome of \<^verbatim>\<open>Repo.clone_from\<close> (the checked-out tree, or the error), the directory
  \<^verbatim>\<open>tempfile.mkdtemp()\<close> creates, the process's working directory and environment
  variables, and which of the built-in configuration files exist beside the source.
\<close>

record env =
  run :: "invocation \<Rightarrow> exn + completed_process"
  clone_from :: "pystr \<Rightarrow> exn + dir"
  mkdtemp :: pystr
  getcwd :: pystr
  getenv :: "pystr \<rightharpoonup> pystr"
  config_exists :: "pystr \<Rightarrow> bool"

text \<open>
  What a run changes: the events received by the callbacks, the tool invocations made,
  and the directories that exist (by path, with their content). The callbacks record
  their message and return; the analyzers leave the checkout as it is.
\<close>

record world =
  events :: "event list"
  invocations :: "invocation list"
  filesystem :: "pystr \<rightharpoonup> dir"

definition log_callback :: "log_message \<Rightarrow> world \<Rightarrow> world" where
  "log_callback m w = w\<lparr>events := events w @ [Log m]\<rparr>"

definition status_callback :: "status_message \<Rightarrow> world \<Rightarrow> world" where
  "status_callback m w = w\<lparr>events := events w @ [Status m]\<rparr>"

definition subprocess_run ::
  "env \<Rightarrow> pystr list \<Rightarrow> pystr option \<Rightarrow> world \<Rightarrow> (exn + completed_process) \<times> world" where
  "subprocess_run e args dir w =
     (run e \<lparr>argv = args, cwd = dir\<rparr>,
      w\<lparr>invocations := invocations w @ [\<lparr>argv = args, cwd = dir\<rparr>]\<rparr>)"

section \<open>The language analyzers\<close>

text \<open>
  Each analyzer takes the world and gives back its result with the world it leaves.
  \<open>Inl e\<close> is the exception \<open>e\<close> leaving the function; the only statements that can
  raise are the calls of \<^verbatim>\<open>subprocess.run\<close>.
\<close>

subsection \<open>\<^verbatim>\<open>src/analyzers/python_analyzer.py\<close>\<close>

text \<open>The \<^verbatim>\<open>except Exception as e\<close> block of \<^verbatim>\<open>analyze_python\<close>.\<close>

definition analyze_python_except :: "pystr \<Rightarrow> exn \<Rightarrow> world \<Rightarrow> (exn + file_result) \<times> world" where
  "analyze_python_except rel_path e w =
     (Inr \<lparr>file = rel_path, issues = lit ''Analysis failed: '' @ str e,
           error_count = 1, warning_count = 0, rating = Some (lit ''Error'')\<rparr>,
      log_callback (Failed (lit ''Python'') (str e)) w)"

definition analyze_python ::
  "env \<Rightarrow> pystr \<Rightarrow> pystr \<Rightarrow> pystr \<Rightarrow> world \<Rightarrow> (exn + file_result) \<times> world" where
  "analyze_python e file_path rel_path temp_dir w0 =
     (let w1 = log_callback Running_python w0 in
      case subprocess_run e
             [lit ''pylint'', lit ''--output-format=text'', lit ''--rcfile=.pylintrc'', file_path]
             (Some temp_dir) w1 of
        (Inl ex, w2) \<Rightarrow> analyze_python_except rel_path ex w2
      | (Inr pylint_result, w2) \<Rightarrow>
          (let pylint_issues =
                 (if returncode pylint_result \<in> {0, 1} then stdout pylint_result
                  else stderr pylint_result);
               pylint_error_count =
                 str_count pylint_issues (lit ''error'') + str_count pylint_issues (lit ''Error'');
               pylint_warning_count =
                 str_count pylint_issues (lit ''warning'') + str_count pylint_issues (lit ''Warning'')
           in case subprocess_run e [lit ''flake8'', lit ''--max-line-length=79'', file_path]
                     (Some temp_dir) w2 of
                (Inl ex, w3) \<Rightarrow> analyze_python_except rel_path ex w3
              | (Inr flake8_result, w3) \<Rightarrow>
                  (let flake8_issues = strip (stdout flake8_result);
                       flake8_error_count =
                         (if flake8_issues \<noteq> [] then length (splitlines flake8_issues) else 0);
                       flake8_warning_count = 0;
                       total_error_count = pylint_error_count + flake8_error_count;
                       total_warning_count = pylint_warning_count + flake8_warning_count;
                       rating0 =
                         (if total_error_count = 0 \<and> total_warning_count = 0 then lit ''Good''
                          else lit ''Needs Improvement'');
                       rating1 = (if total_error_count > 5 then lit ''Poor'' else rating0)
                   in (Inr \<lparr>file = rel_path,
                             issues = lit ''Pylint Issues:'' @ [0x0A] @ pylint_issues @ [0x0A, 0x0A] @
                                      lit ''Flake8 Issues:'' @ [0x0A] @ flake8_issues,
                             error_count = total_error_count,
                             warning_count = total_warning_count,
                             rating = Some rating1\<rparr>,
                       log_callback (Completed (lit ''Python'') rel_path) w3))))"

subsection \<open>\<^verbatim>\<open>src/analyzers/javascript_analyzer.py\<close>\<close>

text \<open>
  The body common to the two definitions of \<^verbatim>\<open>analyze_javascript\<close>, which differ in the
  command line only. Neither has a \<^verbatim>\<open>try\<close>: an exception of \<^verbatim>\<open>subprocess.run\<close> leaves
  the function.
\<close>

definition eslint_analysis ::
  "env \<Rightarrow> pystr list \<Rightarrow> pystr \<Rightarrow> pystr \<Rightarrow> pystr \<Rightarrow> world \<Rightarrow> (exn + file_result) \<times> world" where
  "eslint_analysis e command file_path rel_path temp_dir w0 =
     (if endswith file_path (lit ''.min.js'') then
        (Inr \<lparr>file = rel_path, issues = lit ''Minified files are skipped.'',
              error_count = 0, warning_count = 0, rating = Some (lit ''Good'')\<rparr>,
         log_callback (Skipping_minified file_path) w0)
      else
        case subprocess_run e command (Some temp_dir) w0 of
          (Inl ex, w1) \<Rightarrow> (Inl ex, w1)
        | (Inr eslint_result, w1) \<Rightarrow>
            (let eslint_issues = strip (stdout eslint_result);
                 error_count = (if eslint_issues \<noteq> [] then length (splitlines eslint_issues) else 0);
                 warning_count = 0;
                 rating0 = (if error_count = 0 then lit ''Good'' else lit ''Needs Improvement'');
                 rating1 = (if error_count > 5 then lit ''Poor'' else rating0)
             in (Inr \<lparr>file = rel_path, issues = eslint_issues, error_count = error_count,
                       warning_count = warning_count, rating = Some rating1\<rparr>,
                 log_callback (Completed (lit ''JavaScript'') rel_path) w1)))"

definition analyze_javascript ::
  "env \<Rightarrow> pystr \<Rightarrow> pystr \<Rightarrow> pystr \<Rightarrow> world \<Rightarrow> (exn + file_result) \<times> world" where
  "analyze_javascript e file_path rel_path temp_dir =
     eslint_analysis e
       [lit ''eslint'', lit ''--config'', path_join temp_dir (lit ''eslintconfig.js''),
        lit ''--format=stylish'', file_path]
       file_path rel_path temp_dir"

subsection \<open>\<^verbatim>\<open>src/analyzers/html_analyzer.py\<close> and \<^verbatim>\<open>css_analyzer.py\<close>\<close>

text \<open>The markers counted in the output: U+2717, U+2716 and U+26A0.\<close>

definition ballot_x :: pystr where "ballot_x = [0x2717]"
definition heavy_x :: pystr where "heavy_x = [0x2716]"
definition warning_sign :: pystr where "warning_sign = [0x26A0]"

definition node_modules_bin :: "env \<Rightarrow> pystr" where
  "node_modules_bin e = path_join (path_join (getcwd e) (lit ''node_modules'')) (lit ''.bin'')"

definition analyze_html ::
  "env \<Rightarrow> pystr \<Rightarrow> pystr \<Rightarrow> pystr \<Rightarrow> world \<Rightarrow> (exn + file_result) \<times> world" where
  "analyze_html e file_path rel_path temp_dir w0 =
     (let w1 = log_callback Running_html w0;
          node_modules_path = node_modules_bin e;
          htmlhint_cmd = path_join node_modules_path (lit ''htmlhint'')
      in case subprocess_run e
                [htmlhint_cmd, file_path, lit ''--config'', lit ''htmlhint.config.js'']
                (Some temp_dir) w1 of
           (Inl ex, w2) \<Rightarrow>
             (Inr \<lparr>file = rel_path, issues = lit ''Analysis failed: '' @ str ex,
                   error_count = 1, warning_count = 0, rating = None\<rparr>,
              log_callback (Failed (lit ''HTML'') (str ex)) w2)
         | (Inr result, w2) \<Rightarrow>
             (let issues = (if returncode result \<in> {0, 1} then stdout result else stderr result)
              in (Inr \<lparr>file = rel_path, issues = issues,
                        error_count = str_count issues ballot_x,
                        warning_count = str_count issues warning_sign, rating = None\<rparr>,
                  log_callback (Completed (lit ''HTML'') rel_path) w2)))"

definition analyze_css ::
  "env \<Rightarrow> pystr \<Rightarrow> pystr \<Rightarrow> pystr \<Rightarrow> world \<Rightarrow> (exn + file_result) \<times> world" where
  "analyze_css e file_path rel_path temp_dir w0 =
     (let w1 = log_callback Running_css w0;
          node_modules_path = node_modules_bin e;
          stylelint_cmd = path_join node_modules_path (lit ''stylelint'')
      in case subprocess_run e
                [stylelint_cmd, file_path, lit ''--formatter'', lit ''string'', lit ''--config'',
                 lit ''stylelint.config.js'']
                (Some temp_dir) w1 of
           (Inl ex, w2) \<Rightarrow>
             (Inr \<lparr>file = rel_path, issues = lit ''Analysis failed: '' @ str ex,
                   error_count = 1, warning_count = 0, rating = None\<rparr>,
              log_callback (Failed (lit ''CSS'') (str ex)) w2)
         | (Inr result, w2) \<Rightarrow>
             (let issues = (if returncode result \<in> {0, 1} then stdout result else stderr result)
              in (Inr \<lparr>file = rel_path, issues = issues,
                        error_count = str_count issues heavy_x,
                        warning_count = str_count issues warning_sign, rating = None\<rparr>,
                  log_callback (Completed (lit ''CSS'') rel_path) w2)))"

subsection \<open>\<^verbatim>\<open>src/analyzers/java_analyzer.py\<close>\<close>

text \<open>\<^verbatim>\<open>os.getenv(name, default)\<close>.\<close>

definition os_getenv :: "env \<Rightarrow> pystr \<Rightarrow> pystr \<Rightarrow> pystr" where
  "os_getenv e name dflt = (case getenv e name of None \<Rightarrow> dflt | Some v \<Rightarrow> v)"

definition analyze_java ::
  "env \<Rightarrow> pystr \<Rightarrow> pystr \<Rightarrow> world \<Rightarrow> (exn + file_result) \<times> world" where
  "analyze_java e file_path rel_path w0 =
     (let w1 = log_callback Running_java w0;
          checkstyle_jar =
            os_getenv e (lit ''CHECKSTYLE_JAR'') (lit ''/home/ishu/checkstyle-10.12.0-all.jar'');
          checkstyle_config =
            os_getenv e (lit ''CHECKSTYLE_CONFIG'') (lit ''/home/ishu/sun_checks.xml'')
      in case subprocess_run e
                [lit ''java'', lit ''-jar'', checkstyle_jar, lit ''-c'', checkstyle_config, file_path]
                None w1 of
           (Inl ex, w2) \<Rightarrow>
             (Inr \<lparr>file = rel_path, issues = lit ''Analysis failed: '' @ str ex,
                   error_count = 1, warning_count = 0, rating = None\<rparr>,
              log_callback (Failed (lit ''Java'') (str ex)) w2)
         | (Inr result, w2) \<Rightarrow>
             (let issues = (if returncode result = 0 then stdout result else stderr result)
              in (Inr \<lparr>file = rel_path, issues = issues,
                        error_count = str_count issues (lit ''ERROR''),
                        warning_count = str_count issues (lit ''WARN''), rating = None\<rparr>,
                  log_callback (Completed (lit ''Java'') rel_path) w2)))"

section \<open>The orchestrator: \<^verbatim>\<open>src/repo_analyzer.py\<close>\<close>

text \<open>
  \<^verbatim>\<open>repo_analyzer.py\<close> imports \<^verbatim>\<open>analyze_javascript\<close> and then defines a function of the
  same name at module level; when \<^verbatim>\<open>analyze_repo\<close> runs, the name is bound to this later
  definition, which calls ESLint through \<^verbatim>\<open>npx\<close>.
\<close>

definition repo_analyzer_analyze_javascript ::
  "env \<Rightarrow> pystr \<Rightarrow> pystr \<Rightarrow> pystr \<Rightarrow> world \<Rightarrow> (exn + file_result) \<times> world" where
  "repo_analyzer_analyze_javascript e file_path rel_path temp_dir =
     eslint_analysis e
       [lit ''npx'', lit ''eslint'', lit ''--config'', lit ''eslintconfig.js'',
        lit ''--format=stylish'', file_path]
       file_path rel_path temp_dir"

subsection \<open>The workspace on disk\<close>

text \<open>
  \<^verbatim>\<open>os.walk(temp_dir)\<close>, top-down: a directory, then its sub-directories in order. A
  directory is given by the names leading to it from \<^verbatim>\<open>temp_dir\<close>; \<open>root_path\<close> is
  the \<^verbatim>\<open>root\<close> string that \<^verbatim>\<open>os.walk\<close> yields for it and \<open>relpath\<close> is
  \<^verbatim>\<open>os.path.relpath(os.path.join(root, file), temp_dir)\<close>, the names below
  \<^verbatim>\<open>temp_dir\<close> joined by the separator. A directory that does not exist yields nothing.
\<close>

fun os_walk :: "pystr list \<Rightarrow> dir \<Rightarrow> (pystr list \<times> pystr list) list" where
  "os_walk root (Dir files subdirs) =
     (root, files) # concat (map (\<lambda>nd. os_walk (root @ [fst nd]) (snd nd)) subdirs)"

definition walk_dir :: "world \<Rightarrow> pystr \<Rightarrow> (pystr list \<times> pystr list) list" where
  "walk_dir w temp_dir = (case filesystem w temp_dir of None \<Rightarrow> [] | Some d \<Rightarrow> os_walk [] d)"

definition root_path :: "pystr \<Rightarrow> pystr list \<Rightarrow> pystr" where
  "root_path temp_dir root = foldl path_join temp_dir root"

definition relpath :: "pystr list \<Rightarrow> pystr \<Rightarrow> pystr" where
  "relpath root name = foldr (\<lambda>d p. d @ lit ''/'' @ p) root name"

text \<open>\<^verbatim>\<open>sum([len(files) for _, _, files in os.walk(temp_dir)])\<close>.\<close>

definition count_files :: "(pystr list \<times> pystr list) list \<Rightarrow> nat" where
  "count_files walk = sum_list (map (\<lambda>(root, files). length files) walk)"

text \<open>
  \<^verbatim>\<open>shutil.copy(src_path, dest_path)\<close> for a built-in configuration file and the
  destination \<^verbatim>\<open>temp_dir/name\<close>: the file is created or overwritten; where the
  destination is a directory the file goes into it under the same name, and the copy
  raises when that again is a directory, or when \<^verbatim>\<open>temp_dir\<close> does not exist.
\<close>

definition add_file :: "pystr \<Rightarrow> dir \<Rightarrow> dir" where
  "add_file name d =
     Dir (if name \<in> set (dir_files d) then dir_files d else dir_files d @ [name]) (dir_subdirs d)"

definition os_error :: "string \<Rightarrow> pystr \<Rightarrow> exn" where
  "os_error what path = Exception (lit what @ [0x27] @ path @ [0x27])"

definition shutil_copy :: "pystr \<Rightarrow> pystr \<Rightarrow> world \<Rightarrow> (exn + unit) \<times> world" where
  "shutil_copy temp_dir name w =
     (case filesystem w temp_dir of
        None \<Rightarrow>
          (Inl (os_error ''[Errno 2] No such file or directory: '' (path_join temp_dir name)), w)
      | Some tree \<Rightarrow>
          (case map_of (dir_subdirs tree) name of
             None \<Rightarrow> (Inr (), w\<lparr>filesystem := (filesystem w)(temp_dir \<mapsto> add_file name tree)\<rparr>)
           | Some sub \<Rightarrow>
               if name \<in> fst ` set (dir_subdirs sub) then
                 (Inl (os_error ''[Errno 21] Is a directory: ''
                         (path_join (path_join temp_dir name) name)), w)
               else
                 (Inr (),
                  w\<lparr>filesystem := (filesystem w)(temp_dir \<mapsto>
                      Dir (dir_files tree)
                        (AList.update name (add_file name sub) (dir_subdirs tree)))\<rparr>)))"

definition linter_config_names :: "pystr list" where
  "linter_config_names =
     [lit ''.pylintrc'', lit ''eslintconfig.js'', lit ''htmlhint.config.js'',
      lit ''stylelint.config.js'']"

fun copy_configs :: "env \<Rightarrow> pystr \<Rightarrow> pystr list \<Rightarrow> world \<Rightarrow> (exn + unit) \<times> world" where
  "copy_configs e temp_dir [] w = (Inr (), w)"
| "copy_configs e temp_dir (config_file # rest) w =
     (if config_exists e config_file then
        (case shutil_copy temp_dir config_file w of
           (Inl ex, w') \<Rightarrow> (Inl ex, w')
         | (Inr u, w') \<Rightarrow> copy_configs e temp_dir rest w')
      else copy_configs e temp_dir rest w)"

definition create_linter_configs :: "env \<Rightarrow> pystr \<Rightarrow> world \<Rightarrow> (exn + unit) \<times> world" where
  "create_linter_configs e temp_dir w = copy_configs e temp_dir linter_config_names w"

subsection \<open>Walk and dispatch\<close>

text \<open>
  \<^verbatim>\<open>results[key].append(res)\<close>. The keys used are those the dictionary is created
  with, so the \<^verbatim>\<open>KeyError\<close> of a missing key cannot arise.
\<close>

definition append_result :: "pystr \<Rightarrow> file_result \<Rightarrow> report \<Rightarrow> report" where
  "append_result key res d = map (\<lambda>(k, xs). if k = key then (k, xs @ [Result res]) else (k, xs)) d"

text \<open>The local variables of \<^verbatim>\<open>analyze_repo\<close> that the loop changes.\<close>

record walk_state =
  results :: report
  processed_files :: nat

text \<open>
  The set literal of the loop's first test, and the result of an analyzer call followed
  by the \<^verbatim>\<open>append\<close>: an exception of the call leaves the loop.
\<close>

definition config_artifacts :: "pystr set" where
  "config_artifacts =
     {lit ''.pylintrc'', lit ''eslintconfig.js'', lit ''htmlhint.config.js'',
      lit ''stylelint.config.js''}"

definition dispatch ::
  "pystr \<Rightarrow> walk_state \<Rightarrow> (exn + file_result) \<times> world \<Rightarrow> (exn + walk_state) \<times> world" where
  "dispatch key st r =
     (case r of
        (Inl ex, w) \<Rightarrow> (Inl ex, w)
      | (Inr res, w) \<Rightarrow> (Inr (st\<lparr>results := append_result key res (results st)\<rparr>), w))"

text \<open>The body of the inner loop, for one \<^verbatim>\<open>file\<close> of the directory \<^verbatim>\<open>root\<close>.\<close>

definition process_file ::
  "env \<Rightarrow> pystr \<Rightarrow> nat \<Rightarrow> pystr list \<Rightarrow> pystr \<Rightarrow> walk_state \<Rightarrow> world
     \<Rightarrow> (exn + walk_state) \<times> world" where
  "process_file e temp_dir total_files root name st w =
     (if name \<in> config_artifacts then (Inr st, log_callback (Skipping_config name) w)
      else
        let st1 = st\<lparr>processed_files := processed_files st + 1\<rparr>;
            file_path = path_join (root_path temp_dir root) name;
            rel_path = relpath root name;
            w1 = status_callback (Analyzing (processed_files st1) total_files rel_path) w;
            w2 = log_callback (Processing rel_path) w1
        in if endswith name (lit ''.py'') then
             dispatch (lit ''Python'') st1 (analyze_python e file_path rel_path temp_dir w2)
           else if endswith name (lit ''.js'') then
             (if endswith name (lit ''.min.js'') then
                (Inr st1, log_callback (Skipping_minified rel_path) w2)
              else
                dispatch (lit ''JavaScript'') st1
                  (repo_analyzer_analyze_javascript e file_path rel_path temp_dir w2))
           else if endswith name (lit ''.html'') then
             dispatch (lit ''HTML'') st1 (analyze_html e file_path rel_path temp_dir w2)
           else if endswith name (lit ''.css'') then
             dispatch (lit ''CSS'') st1 (analyze_css e file_path rel_path temp_dir w2)
           else if endswith name (lit ''.java'') then
             dispatch (lit ''Java'') st1 (analyze_java e file_path rel_path w2)
           else (Inr st1, w2))"

text \<open>\<^verbatim>\<open>for file in files\<close> and \<^verbatim>\<open>for root, _, files in os.walk(temp_dir)\<close>.\<close>

fun files_loop ::
  "env \<Rightarrow> pystr \<Rightarrow> nat \<Rightarrow> pystr list \<Rightarrow> pystr list \<Rightarrow> walk_state \<Rightarrow> world
     \<Rightarrow> (exn + walk_state) \<times> world" where
  "files_loop e temp_dir total_files root [] st w = (Inr st, w)"
| "files_loop e temp_dir total_files root (name # names) st w =
     (case process_file e temp_dir total_files root name st w of
        (Inl ex, w') \<Rightarrow> (Inl ex, w')
      | (Inr st', w') \<Rightarrow> files_loop e temp_dir total_files root names st' w')"

fun walk_loop ::
  "env \<Rightarrow> pystr \<Rightarrow> nat \<Rightarrow> (pystr list \<times> pystr list) list \<Rightarrow> walk_state \<Rightarrow> world
     \<Rightarrow> (exn + walk_state) \<times> world" where
  "walk_loop e temp_dir total_files [] st w = (Inr st, w)"
| "walk_loop e temp_dir total_files ((root, files) # rest) st w =
     (case files_loop e temp_dir total_files root files st w of
        (Inl ex, w') \<Rightarrow> (Inl ex, w')
      | (Inr st', w') \<Rightarrow> walk_loop e temp_dir total_files rest st' w')"

subsection \<open>\<^verbatim>\<open>analyze_repo\<close>\<close>

definition initial_results :: report where
  "initial_results =
     [(lit ''Python'', []), (lit ''JavaScript'', []), (lit ''HTML'', []), (lit ''CSS'', []),
      (lit ''Java'', [])]"

text \<open>
  \<^verbatim>\<open>tempfile.mkdtemp()\<close> creates an empty directory; a failed clone leaves it as it is,
  a successful one fills it; \<^verbatim>\<open>shutil.rmtree(temp_dir, ignore_errors=True)\<close> removes it.
\<close>

definition os_mkdtemp :: "env \<Rightarrow> world \<Rightarrow> pystr \<times> world" where
  "os_mkdtemp e w = (mkdtemp e, w\<lparr>filesystem := (filesystem w)(mkdtemp e \<mapsto> Dir [] [])\<rparr>)"

definition repo_clone_from :: "env \<Rightarrow> pystr \<Rightarrow> pystr \<Rightarrow> world \<Rightarrow> (exn + unit) \<times> world" where
  "repo_clone_from e repo_url temp_dir w =
     (case clone_from e repo_url of
        Inl ex \<Rightarrow> (Inl ex, w)
      | Inr tree \<Rightarrow> (Inr (), w\<lparr>filesystem := (filesystem w)(temp_dir \<mapsto> tree)\<rparr>))"

definition shutil_rmtree :: "pystr \<Rightarrow> world \<Rightarrow> world" where
  "shutil_rmtree temp_dir w = w\<lparr>filesystem := (filesystem w)(temp_dir := None)\<rparr>"

definition analyze_repo :: "env \<Rightarrow> pystr \<Rightarrow> world \<Rightarrow> (exn + report) \<times> world" where
  "analyze_repo e repo_url w0 =
     (let (temp_dir, w1) = os_mkdtemp e w0;
          w2 = log_callback (Cloning repo_url) w1
      in case repo_clone_from e repo_url temp_dir w2 of
           (Inl ex, w3) \<Rightarrow>
             (Inr [(lit ''Error'', [Message (str ex)])], log_callback (Clone_error (str ex)) w3)
         | (Inr u, w3) \<Rightarrow>
             (let w4 = status_callback Cloning_complete w3;
                  total_files = count_files (walk_dir w4 temp_dir)
              in case create_linter_configs e temp_dir w4 of
                   (Inl ex, w5) \<Rightarrow> (Inl ex, w5)
                 | (Inr u', w5) \<Rightarrow>
                     (case walk_loop e temp_dir total_files (walk_dir w5 temp_dir)
                             \<lparr>results = initial_results, processed_files = 0\<rparr> w5 of
                        (Inl ex, w6) \<Rightarrow> (Inl ex, w6)
                      | (Inr st, w6) \<Rightarrow>
                          (Inr (results st),
                           log_callback (Cleaned_up temp_dir) (shutil_rmtree temp_dir w6)))))"

section \<open>Notions used in the statements\<close>

text \<open>
  A string is unbordered when no proper, non-empty prefix of it is also a suffix of it:
  two occurrences of such a string cannot overlap.
\<close>

definition unbordered :: "pystr \<Rightarrow> bool" where
  "unbordered sub = list_all (\<lambda>j. take (length sub - j) sub \<noteq> drop j sub) [1..<length sub]"

text \<open>The lines of a text that are not empty, by the line boundaries of \<open>splitlines\<close>.\<close>

definition nonempty_lines :: "pystr \<Rightarrow> nat" where
  "nonempty_lines s = length (filter (\<lambda>l. l \<noteq> []) (splitlines s))"

text \<open>The status messages among the events, in order.\<close>

fun statuses :: "event list \<Rightarrow> status_message list" where
  "statuses [] = []"
| "statuses (Log m # evs) = statuses evs"
| "statuses (Status m # evs) = m # statuses evs"

text \<open>
  The key of the report under which the orchestrator files a name, read off the tests
  of the loop body in their order; \<open>None\<close> for a name that reaches no analyzer.
\<close>

definition language_of :: "pystr \<Rightarrow> pystr option" where
  "language_of name =
     (if name \<in> config_artifacts then None
      else if endswith name (lit ''.py'') then Some (lit ''Python'')
      else if endswith name (lit ''.js'') then
        (if endswith name (lit ''.min.js'') then None else Some (lit ''JavaScript''))
      else if endswith name (lit ''.html'') then Some (lit ''HTML'')
      else if endswith name (lit ''.css'') then Some (lit ''CSS'')
      else if endswith name (lit ''.java'') then Some (lit ''Java'')
      else None)"

text \<open>
  The files of a walk as (directory, name) pairs in walk order, and the two nested
  loops as one loop over these pairs.
\<close>

definition walk_files :: "(pystr list \<times> pystr list) list \<Rightarrow> (pystr list \<times> pystr) list" where
  "walk_files walk = concat (map (\<lambda>(root, names). map (Pair root) names) walk)"

fun flat_loop ::
  "env \<Rightarrow> pystr \<Rightarrow> nat \<Rightarrow> (pystr list \<times> pystr) list \<Rightarrow> walk_state \<Rightarrow> world
     \<Rightarrow> (exn + walk_state) \<times> world" where
  "flat_loop e temp_dir total_files [] st w = (Inr st, w)"
| "flat_loop e temp_dir total_files ((root, name) # rest) st w =
     (case process_file e temp_dir total_files root name st w of
        (Inl ex, w') \<Rightarrow> (Inl ex, w')
      | (Inr st', w') \<Rightarrow> flat_loop e temp_dir total_files rest st' w')"

text \<open>
  The files that are not configuration artifacts, the files filed under a key, and the
  progress messages "Analyzing (p+1/n)", "Analyzing (p+2/n)", ... for a list of files.
\<close>

definition non_config :: "(pystr list \<times> pystr) list \<Rightarrow> (pystr list \<times> pystr) list" where
  "non_config fs = filter (\<lambda>(root, name). name \<notin> config_artifacts) fs"

definition dispatched_to :: "pystr \<Rightarrow> (pystr list \<times> pystr) list \<Rightarrow> (pystr list \<times> pystr) list" where
  "dispatched_to key fs = filter (\<lambda>(root, name). language_of name = Some key) fs"

fun progress_events :: "nat \<Rightarrow> nat \<Rightarrow> (pystr list \<times> pystr) list \<Rightarrow> status_message list" where
  "progress_events p n [] = []"
| "progress_events p n ((root, name) # fs) =
     Analyzing (p + 1) n (relpath root name) # progress_events (p + 1) n fs"

text \<open>The world once the clone has succeeded, as \<^verbatim>\<open>total_files\<close> is computed.\<close>

definition cloned_world :: "env \<Rightarrow> pystr \<Rightarrow> dir \<Rightarrow> world \<Rightarrow> world" where
  "cloned_world e repo_url tree w =
     w\<lparr>events := events w @ [Log (Cloning repo_url), Status Cloning_complete],
       filesystem := (filesystem w)(mkdtemp e \<mapsto> tree)\<rparr>"

text \<open>The tool invocations of the Python and Java analyzers for a file.\<close>

definition pylint_invocation :: "pystr \<Rightarrow> pystr \<Rightarrow> invocation" where
  "pylint_invocation file_path temp_dir =
     \<lparr>argv = [lit ''pylint'', lit ''--output-format=text'', lit ''--rcfile=.pylintrc'', file_path],
      cwd = Some temp_dir\<rparr>"

definition flake8_invocation :: "pystr \<Rightarrow> pystr \<Rightarrow> invocation" where
  "flake8_invocation file_path temp_dir =
     \<lparr>argv = [lit ''flake8'', lit ''--max-line-length=79'', file_path], cwd = Some temp_dir\<rparr>"

definition java_invocation :: "env \<Rightarrow> pystr \<Rightarrow> invocation" where
  "java_invocation e file_path =
     \<lparr>argv = [lit ''java'', lit ''-jar'',
              os_getenv e (lit ''CHECKSTYLE_JAR'') (lit ''/home/ishu/checkstyle-10.12.0-all.jar''),
              lit ''-c'',
              os_getenv e (lit ''CHECKSTYLE_CONFIG'') (lit ''/home/ishu/sun_checks.xml''),
              file_path],
      cwd = None\<rparr>"

text \<open>
  The exception that sends \<^verbatim>\<open>analyze_python\<close> into its handler, if any: that of Pylint's
  invocation, or else that of Flake8's.
\<close>

definition python_tool_failure :: "env \<Rightarrow> pystr \<Rightarrow> pystr \<Rightarrow> exn option" where
  "python_tool_failure e file_path temp_dir =
     (case run e (pylint_invocation file_path temp_dir) of
        Inl ex \<Rightarrow> Some ex
      | Inr p \<Rightarrow>
          (case run e (flake8_invocation file_path temp_dir) of
             Inl ex \<Rightarrow> Some ex
           | Inr f \<Rightarrow> None))"

subsection \<open>Concrete runs\<close>

text \<open>
  Surroundings for concrete runs: what the clone gives, how the tools behave, and which
  built-in configuration files exist. A missing executable makes \<^verbatim>\<open>subprocess.run\<close>
  raise \<^verbatim>\<open>FileNotFoundError\<close>.
\<close>

definition env_with ::
  "exn + dir \<Rightarrow> (invocation \<Rightarrow> exn + completed_process) \<Rightarrow> pystr list \<Rightarrow> env" where
  "env_with cloned tools configs =
     \<lparr>run = tools, clone_from = (\<lambda>url. cloned), mkdtemp = lit ''/tmp/tmpk3x'',
      getcwd = lit ''/srv/app'', getenv = Map.empty, config_exists = (\<lambda>name. name \<in> set configs)\<rparr>"

definition empty_world :: world where
  "empty_world = \<lparr>events = [], invocations = [], filesystem = Map.empty\<rparr>"

definition tool_missing :: "invocation \<Rightarrow> exn + completed_process" where
  "tool_missing i =
     Inl (os_error ''[Errno 2] No such file or directory: ''
            (case argv i of [] \<Rightarrow> [] | a # as \<Rightarrow> a))"

definition tool_prints :: "pystr \<Rightarrow> invocation \<Rightarrow> exn + completed_process" where
  "tool_prints out i = Inr \<lparr>returncode = 0, stdout = out, stderr = []\<rparr>"

text \<open>
  Tool output with a blank line between two findings, a Checkstyle run that exits with
  code 1, and a checkout with a file no analyzer takes, a minified script and a Python
  file.
\<close>

definition flake8_style_output :: pystr where
  "flake8_style_output =
     lit ''m.py:1:1: E265 block comment'' @ [0x0A, 0x0A] @ lit ''m.py:2:1: W391 blank line'' @ [0x0A]"

definition checkstyle_output :: completed_process where
  "checkstyle_output =
     \<lparr>returncode = 1, stdout = lit ''Starting audit...'',
      stderr = lit ''[ERROR] A.java:1: Missing javadoc. [WARN] A.java:2: tab. [ERROR] A.java:3''\<rparr>"

definition mixed_checkout :: dir where
  "mixed_checkout = Dir [lit ''README'', lit ''lib.min.js'', lit ''a.py''] []"

section \<open>Strings\<close>

lemma unbordered_no_overlap:
  assumes u: "unbordered sub" and p: "prefix sub s" and j: "0 < j" "j < length sub"
  shows "\<not> prefix sub (drop j s)"
proof
  assume q: "prefix sub (drop j s)"
  from p obtain r where s: "s = sub @ r" by (auto simp: prefix_def)
  from q obtain r' where d: "drop j s = sub @ r'" by (auto simp: prefix_def)
  from s j have "drop j s = drop j sub @ r" by simp
  with d have "drop j sub @ r = sub @ r'" by simp
  then have "take (length sub - j) (drop j sub @ r) = take (length sub - j) (sub @ r')" by simp
  then have "drop j sub = take (length sub - j) sub" using j by simp
  moreover from u j have "take (length sub - j) sub \<noteq> drop j sub"
    by (simp add: unbordered_def list_all_iff)
  ultimately show False by simp
qed

lemma count_scan_occurrences:
  assumes u: "unbordered sub" and ne: "sub \<noteq> []"
  shows "(\<And>i. i < k \<Longrightarrow> \<not> prefix sub (drop i s)) \<Longrightarrow> count_scan sub k s = occurrences sub s"
proof (induction s arbitrary: k)
  case Nil
  then show ?case using ne by simp
next
  case (Cons c cs)
  show ?case
  proof (cases "0 < k")
    case True
    have np: "\<not> prefix sub (c # cs)" using Cons.prems [of 0] True by simp
    have "count_scan sub (k - 1) cs = occurrences sub cs"
    proof (rule Cons.IH)
      fix i assume "i < k - 1"
      then have "Suc i < k" by simp
      from Cons.prems [OF this] show "\<not> prefix sub (drop i cs)" by simp
    qed
    with True np show ?thesis by simp
  next
    case k0: False
    show ?thesis
    proof (cases "prefix sub (c # cs)")
      case True
      have "count_scan sub (length sub - 1) cs = occurrences sub cs"
      proof (rule Cons.IH)
        fix i assume "i < length sub - 1"
        then have "0 < Suc i" "Suc i < length sub" by simp_all
        from unbordered_no_overlap [OF u True this] show "\<not> prefix sub (drop i cs)" by simp
      qed
      with True k0 show ?thesis by simp
    next
      case False
      have "count_scan sub 0 cs = occurrences sub cs"
        by (rule Cons.IH) simp
      with False k0 show ?thesis by simp
    qed
  qed
qed

lemma str_count_occurrences:
  "unbordered sub \<Longrightarrow> sub \<noteq> [] \<Longrightarrow> str_count s sub = occurrences sub s"
  by (simp add: str_count_def count_scan_occurrences)

lemma unbordered_needles:
  "unbordered (lit ''error'')" "unbordered (lit ''Error'')"
  "unbordered (lit ''warning'')" "unbordered (lit ''Warning'')"
  "unbordered (lit ''ERROR'')" "unbordered (lit ''WARN'')"
  by (simp_all add: unbordered_def lit_def upt_rec)

lemma config_artifact_suffixes:
  assumes "name \<in> config_artifacts"
  shows "\<not> endswith name (lit ''.min.js'')" "\<not> endswith name (lit ''.py'')"
  using assms by (auto simp: config_artifacts_def endswith_def lit_def suffix_def)

lemma min_js_ends_js: "endswith name (lit ''.min.js'') \<Longrightarrow> endswith name (lit ''.js'')"
  by (auto simp: endswith_def lit_def suffix_def)

lemma min_js_not_py: "endswith name (lit ''.min.js'') \<Longrightarrow> \<not> endswith name (lit ''.py'')"
  by (auto simp: endswith_def lit_def suffix_def)

lemma splitlines_empty: "splitlines [] = []"
  by (simp add: splitlines_def)

lemma lit_nonempty: "lit (c # cs) \<noteq> []"
  by (simp add: lit_def)

lemma needle_counts:
  "str_count s (lit ''error'') = occurrences (lit ''error'') s"
  "str_count s (lit ''Error'') = occurrences (lit ''Error'') s"
  "str_count s (lit ''warning'') = occurrences (lit ''warning'') s"
  "str_count s (lit ''Warning'') = occurrences (lit ''Warning'') s"
  "str_count s (lit ''ERROR'') = occurrences (lit ''ERROR'') s"
  "str_count s (lit ''WARN'') = occurrences (lit ''WARN'') s"
  by (simp_all add: str_count_occurrences unbordered_needles lit_nonempty)

text \<open>Unfolding the definitions on concrete inputs.\<close>

lemmas string_eval = lit_def endswith_def suffix_to_prefix str_count_def strip_def splitlines_def
  is_whitespace_def is_linebreak_def path_join_def nonempty_lines_def os_error_def

lemmas run_eval = env_with_def empty_world_def tool_missing_def tool_prints_def
  subprocess_run_def log_callback_def status_callback_def Let_def

lemmas analyzer_eval = analyze_python_def analyze_python_except_def eslint_analysis_def
  analyze_javascript_def repo_analyzer_analyze_javascript_def analyze_html_def analyze_css_def
  analyze_java_def node_modules_bin_def os_getenv_def ballot_x_def heavy_x_def warning_sign_def

lemmas repo_eval = analyze_repo_def os_mkdtemp_def repo_clone_from_def walk_dir_def os_walk.simps
  count_files_def create_linter_configs_def linter_config_names_def shutil_copy_def add_file_def
  process_file_def config_artifacts_def dispatch_def append_result_def initial_results_def
  shutil_rmtree_def root_path_def relpath_def cloned_world_def walk_files_def language_of_def

section \<open>Effects of the callbacks and the analyzers\<close>

lemma statuses_append: "statuses (xs @ ys) = statuses xs @ statuses ys"
  by (induction xs rule: statuses.induct) simp_all

lemma log_callback_simps:
  "events (log_callback m w) = events w @ [Log m]"
  "invocations (log_callback m w) = invocations w"
  "filesystem (log_callback m w) = filesystem w"
  by (simp_all add: log_callback_def)

lemma status_callback_simps:
  "events (status_callback m w) = events w @ [Status m]"
  "invocations (status_callback m w) = invocations w"
  "filesystem (status_callback m w) = filesystem w"
  by (simp_all add: status_callback_def)

lemma subprocess_run_simps:
  "fst (subprocess_run e args d w) = run e \<lparr>argv = args, cwd = d\<rparr>"
  "events (snd (subprocess_run e args d w)) = events w"
  "invocations (snd (subprocess_run e args d w)) = invocations w @ [\<lparr>argv = args, cwd = d\<rparr>]"
  "filesystem (snd (subprocess_run e args d w)) = filesystem w"
  by (simp_all add: subprocess_run_def)

lemmas effect_simps = log_callback_simps status_callback_simps statuses_append

lemma analyze_python_effect:
  "statuses (events (snd (analyze_python e fp rp td w))) = statuses (events w)"
  "filesystem (snd (analyze_python e fp rp td w)) = filesystem w"
  by (simp_all add: analyze_python_def analyze_python_except_def subprocess_run_def Let_def
      effect_simps split: sum.splits)

lemma eslint_analysis_effect:
  "statuses (events (snd (eslint_analysis e cmd fp rp td w))) = statuses (events w)"
  "filesystem (snd (eslint_analysis e cmd fp rp td w)) = filesystem w"
  by (simp_all add: eslint_analysis_def subprocess_run_def Let_def effect_simps split: sum.splits)

lemma analyze_html_effect:
  "statuses (events (snd (analyze_html e fp rp td w))) = statuses (events w)"
  "filesystem (snd (analyze_html e fp rp td w)) = filesystem w"
  by (simp_all add: analyze_html_def subprocess_run_def Let_def effect_simps split: sum.splits)

lemma analyze_css_effect:
  "statuses (events (snd (analyze_css e fp rp td w))) = statuses (events w)"
  "filesystem (snd (analyze_css e fp rp td w)) = filesystem w"
  by (simp_all add: analyze_css_def subprocess_run_def Let_def effect_simps split: sum.splits)

lemma analyze_java_effect:
  "statuses (events (snd (analyze_java e fp rp w))) = statuses (events w)"
  "filesystem (snd (analyze_java e fp rp w)) = filesystem w"
  by (simp_all add: analyze_java_def subprocess_run_def Let_def effect_simps split: sum.splits)

lemmas analyzer_effect = analyze_python_effect eslint_analysis_effect analyze_html_effect
  analyze_css_effect analyze_java_effect

lemma snd_dispatch: "snd (dispatch key st r) = snd r"
  by (simp add: dispatch_def split: prod.splits sum.splits)

lemma fst_dispatch:
  "fst (dispatch key st r) =
     (case fst r of Inl ex \<Rightarrow> Inl ex
      | Inr res \<Rightarrow> Inr (st\<lparr>results := append_result key res (results st)\<rparr>))"
  by (simp add: dispatch_def split: prod.splits sum.splits)

lemma analyzer_file:
  "fst (analyze_python e fp rp td w) = Inr res \<Longrightarrow> file res = rp"
  "fst (eslint_analysis e cmd fp rp td w) = Inr res \<Longrightarrow> file res = rp"
  "fst (analyze_html e fp rp td w) = Inr res \<Longrightarrow> file res = rp"
  "fst (analyze_css e fp rp td w) = Inr res \<Longrightarrow> file res = rp"
  "fst (analyze_java e fp rp w) = Inr res \<Longrightarrow> file res = rp"
  by (auto simp: analyze_python_def analyze_python_except_def eslint_analysis_def analyze_html_def
      analyze_css_def analyze_java_def subprocess_run_def Let_def split: sum.splits if_splits)

section \<open>One step of the walk\<close>

lemma process_file_config:
  "name \<in> config_artifacts \<Longrightarrow>
   process_file e td n root name st w = (Inr st, log_callback (Skipping_config name) w)"
  by (simp add: process_file_def)

lemma process_file_statuses:
  "statuses (events (snd (process_file e td n root name st w))) =
     statuses (events w) @
     (if name \<in> config_artifacts then []
      else [Analyzing (processed_files st + 1) n (relpath root name)])"
  by (simp add: process_file_def Let_def snd_dispatch analyzer_effect effect_simps
      repo_analyzer_analyze_javascript_def)

lemma process_file_filesystem:
  "filesystem (snd (process_file e td n root name st w)) = filesystem w"
  by (simp add: process_file_def Let_def snd_dispatch analyzer_effect effect_simps
      repo_analyzer_analyze_javascript_def)

lemma process_file_state:
  assumes "fst (process_file e td n root name st w) = Inr st'"
  shows "processed_files st' = processed_files st + (if name \<in> config_artifacts then 0 else 1)"
    and "case language_of name of
           None \<Rightarrow> results st' = results st
         | Some key \<Rightarrow> \<exists>res. results st' = append_result key res (results st)"
  using assms
  by (auto simp: process_file_def Let_def fst_dispatch language_of_def split: if_splits sum.splits)

lemma process_file_results:
  assumes "fst (process_file e td n root name st w) = Inr st'"
  shows "case language_of name of
           None \<Rightarrow> results st' = results st
         | Some key \<Rightarrow>
             \<exists>res. file res = relpath root name \<and>
                   results st' = append_result key res (results st)"
  using assms
  by (auto simp: process_file_def Let_def fst_dispatch language_of_def
      repo_analyzer_analyze_javascript_def
      split: if_splits sum.splits dest: analyzer_file)

section \<open>The walk\<close>

lemma flat_loop_append:
  "flat_loop e td n (fs @ gs) st w =
     (case flat_loop e td n fs st w of
        (Inl ex, w') \<Rightarrow> (Inl ex, w')
      | (Inr st', w') \<Rightarrow> flat_loop e td n gs st' w')"
  by (induction fs arbitrary: st w) (auto split: prod.splits sum.splits)

lemma files_loop_flat:
  "files_loop e td n root names st w = flat_loop e td n (map (Pair root) names) st w"
  by (induction names arbitrary: st w) (auto split: prod.splits sum.splits)

lemma walk_loop_flat:
  "walk_loop e td n walk st w = flat_loop e td n (walk_files walk) st w"
  by (induction walk arbitrary: st w)
     (auto simp: walk_files_def flat_loop_append files_loop_flat split: prod.splits sum.splits)

lemma flat_loop_filesystem:
  "filesystem (snd (flat_loop e td n fs st w)) = filesystem w"
proof (induction fs arbitrary: st w)
  case Nil
  then show ?case by simp
next
  case (Cons f fs)
  obtain root name where f: "f = (root, name)" by (cases f)
  obtain r w1 where p: "process_file e td n root name st w = (r, w1)" by force
  have "filesystem w1 = filesystem w"
    using process_file_filesystem [of e td n root name st w] p by simp
  then show ?case using Cons.IH p f by (cases r) simp_all
qed

lemma flat_loop_progress_returned:
  "flat_loop e td n fs st w = (Inr st', w') \<Longrightarrow>
   statuses (events w') = statuses (events w) @ progress_events (processed_files st) n (non_config fs)
   \<and> processed_files st' = processed_files st + length (non_config fs)"
proof (induction fs arbitrary: st w)
  case Nil
  then show ?case by (simp add: non_config_def)
next
  case (Cons f fs)
  obtain root name where f: "f = (root, name)" by (cases f)
  obtain r w1 where p: "process_file e td n root name st w = (r, w1)" by force
  from Cons.prems p f obtain st1 where r: "r = Inr st1" by (cases r) simp_all
  from Cons.prems p f r have rest: "flat_loop e td n fs st1 w1 = (Inr st', w')" by simp
  have s: "statuses (events w1) = statuses (events w) @
      (if name \<in> config_artifacts then [] else [Analyzing (processed_files st + 1) n (relpath root name)])"
    using process_file_statuses [of e td n root name st w] p by simp
  have c: "processed_files st1 = processed_files st + (if name \<in> config_artifacts then 0 else 1)"
    using process_file_state(1) [of e td n root name st w st1] p r by simp
  from Cons.IH [OF rest] s c f show ?case by (simp add: non_config_def)
qed

lemma flat_loop_progress_prefix:
  "\<exists>evs. statuses (events (snd (flat_loop e td n fs st w))) = statuses (events w) @ evs \<and>
         prefix evs (progress_events (processed_files st) n (non_config fs))"
proof (induction fs arbitrary: st w)
  case Nil
  then show ?case by simp
next
  case (Cons f fs)
  obtain root name where f: "f = (root, name)" by (cases f)
  obtain r w1 where p: "process_file e td n root name st w = (r, w1)" by force
  have s: "statuses (events w1) = statuses (events w) @
      (if name \<in> config_artifacts then [] else [Analyzing (processed_files st + 1) n (relpath root name)])"
    using process_file_statuses [of e td n root name st w] p by simp
  show ?case
  proof (cases r)
    case (Inl ex)
    with p f s show ?thesis by (simp add: non_config_def)
  next
    case (Inr st1)
    have c: "processed_files st1 = processed_files st + (if name \<in> config_artifacts then 0 else 1)"
      using process_file_state(1) [of e td n root name st w st1] p Inr by simp
    from Cons.IH [of st1 w1] obtain evs where
      "statuses (events (snd (flat_loop e td n fs st1 w1))) = statuses (events w1) @ evs"
      "prefix evs (progress_events (processed_files st1) n (non_config fs))" by blast
    with p f s c Inr show ?thesis by (auto simp: non_config_def)
  qed
qed

lemma map_of_append_result:
  "map_of (append_result key res d) L =
     (if L = key then map_option (\<lambda>xs. xs @ [Result res]) (map_of d L) else map_of d L)"
  by (induction d) (auto simp: append_result_def)

lemma keys_append_result: "map fst (append_result key res d) = map fst d"
  by (induction d) (auto simp: append_result_def)

lemma flat_loop_keys:
  "flat_loop e td n fs st w = (Inr st', w') \<Longrightarrow> map fst (results st') = map fst (results st)"
proof (induction fs arbitrary: st w)
  case Nil
  then show ?case by simp
next
  case (Cons f fs)
  obtain root name where f: "f = (root, name)" by (cases f)
  obtain r w1 where p: "process_file e td n root name st w = (r, w1)" by force
  from Cons.prems p f obtain st1 where r: "r = Inr st1" by (cases r) simp_all
  from Cons.prems p f r have rest: "flat_loop e td n fs st1 w1 = (Inr st', w')" by simp
  have "map fst (results st1) = map fst (results st)"
    using process_file_state(2) [of e td n root name st w st1] p r
    by (auto simp: keys_append_result split: option.splits)
  with Cons.IH [OF rest] show ?case by simp
qed

lemma flat_loop_results:
  "flat_loop e td n fs st w = (Inr st', w') \<Longrightarrow> map_of (results st) L = Some ys \<Longrightarrow>
   \<exists>rs. map_of (results st') L = Some (ys @ map Result rs) \<and>
        map file rs = map (\<lambda>(root, name). relpath root name) (dispatched_to L fs)"
proof (induction fs arbitrary: st w ys)
  case Nil
  then show ?case by (simp add: dispatched_to_def)
next
  case (Cons f fs)
  obtain root name where f: "f = (root, name)" by (cases f)
  obtain r w1 where p: "process_file e td n root name st w = (r, w1)" by force
  from Cons.prems(1) p f obtain st1 where r: "r = Inr st1" by (cases r) simp_all
  from Cons.prems(1) p f r have rest: "flat_loop e td n fs st1 w1 = (Inr st', w')" by simp
  have step: "case language_of name of
           None \<Rightarrow> results st1 = results st
         | Some key \<Rightarrow>
             \<exists>res. file res = relpath root name \<and>
                   results st1 = append_result key res (results st)"
    using process_file_results [of e td n root name st w st1] p r by simp
  show ?case
  proof (cases "language_of name = Some L")
    case True
    with step obtain res where res: "file res = relpath root name"
      "results st1 = append_result L res (results st)" by auto
    with Cons.prems(2) have "map_of (results st1) L = Some (ys @ [Result res])"
      by (simp add: map_of_append_result)
    from Cons.IH [OF rest this] obtain rs where
      "map_of (results st') L = Some ((ys @ [Result res]) @ map Result rs)"
      "map file rs = map (\<lambda>(root, name). relpath root name) (dispatched_to L fs)" by blast
    with res(1) True f have
      "map_of (results st') L = Some (ys @ map Result (res # rs)) \<and>
       map file (res # rs) = map (\<lambda>(root, name). relpath root name) (dispatched_to L (f # fs))"
      by (simp add: dispatched_to_def)
    then show ?thesis by blast
  next
    case False
    with step Cons.prems(2) have "map_of (results st1) L = Some ys"
      by (auto simp: map_of_append_result split: option.splits)
    from Cons.IH [OF rest this] False f show ?thesis by (simp add: dispatched_to_def)
  qed
qed

section \<open>Provisioning the configuration files\<close>

lemma walk_files_append: "walk_files (xs @ ys) = walk_files xs @ walk_files ys"
  by (simp add: walk_files_def)

lemma walk_files_Cons: "walk_files ((root, names) # xs) = map (Pair root) names @ walk_files xs"
  by (simp add: walk_files_def)

lemma walk_files_concat: "walk_files (concat xss) = concat (map walk_files xss)"
proof (induction xss)
  case Nil
  then show ?case by (simp add: walk_files_def)
next
  case (Cons xs xss)
  then show ?case by (simp add: walk_files_append)
qed

lemma walk_files_os_walk:
  "walk_files (os_walk root (Dir files subdirs)) =
     map (Pair root) files @
     concat (map (\<lambda>nd. walk_files (os_walk (root @ [fst nd]) (snd nd))) subdirs)"
  by (simp add: walk_files_Cons walk_files_concat comp_def)

declare os_walk.simps [simp del]

lemma non_config_append: "non_config (xs @ ys) = non_config xs @ non_config ys"
  by (simp add: non_config_def)

lemma non_config_map_Pair:
  "c \<in> config_artifacts \<Longrightarrow>
   non_config (map (Pair root) (if c \<in> set files then files else files @ [c])) =
   non_config (map (Pair root) files)"
  by (simp add: non_config_def)

lemma non_config_add_file:
  "c \<in> config_artifacts \<Longrightarrow>
   non_config (walk_files (os_walk root (add_file c d))) = non_config (walk_files (os_walk root d))"
proof (cases d)
  case (Dir files subdirs)
  assume "c \<in> config_artifacts"
  from non_config_map_Pair [OF this] Dir show ?thesis
    by (simp only: add_file_def dir.sel walk_files_os_walk non_config_append)
qed

lemma non_config_update:
  "c \<in> config_artifacts \<Longrightarrow> map_of subdirs k = Some sub \<Longrightarrow>
   non_config (concat (map (\<lambda>nd. walk_files (os_walk (root @ [fst nd]) (snd nd)))
      (AList.update k (add_file c sub) subdirs))) =
   non_config (concat (map (\<lambda>nd. walk_files (os_walk (root @ [fst nd]) (snd nd))) subdirs))"
  by (induction subdirs) (auto simp: non_config_append non_config_add_file)

lemma shutil_copy_effect:
  assumes c: "c \<in> config_artifacts" and fs: "filesystem w td = Some tree"
  shows "events (snd (shutil_copy td c w)) = events w"
    and "invocations (snd (shutil_copy td c w)) = invocations w"
    and "\<exists>tree'. filesystem (snd (shutil_copy td c w)) td = Some tree' \<and>
           non_config (walk_files (os_walk [] tree')) = non_config (walk_files (os_walk [] tree))"
proof -
  show "events (snd (shutil_copy td c w)) = events w"
    using fs by (simp add: shutil_copy_def split: option.splits)
  show "invocations (snd (shutil_copy td c w)) = invocations w"
    using fs by (simp add: shutil_copy_def split: option.splits)
  obtain files subdirs where tree: "tree = Dir files subdirs" by (cases tree)
  show "\<exists>tree'. filesystem (snd (shutil_copy td c w)) td = Some tree' \<and>
           non_config (walk_files (os_walk [] tree')) = non_config (walk_files (os_walk [] tree))"
  proof (cases "map_of subdirs c")
    case None
    with fs tree c show ?thesis by (simp add: shutil_copy_def non_config_add_file)
  next
    case (Some sub)
    with fs tree c non_config_update [OF c Some, of "[]"] show ?thesis
      by (simp add: shutil_copy_def walk_files_os_walk non_config_append)
  qed
qed

lemma copy_configs_effect:
  "set cs \<subseteq> config_artifacts \<Longrightarrow> filesystem w td = Some tree \<Longrightarrow>
   events (snd (copy_configs e td cs w)) = events w \<and>
   invocations (snd (copy_configs e td cs w)) = invocations w \<and>
   (\<exists>tree'. filesystem (snd (copy_configs e td cs w)) td = Some tree' \<and>
           non_config (walk_files (os_walk [] tree')) = non_config (walk_files (os_walk [] tree)))"
proof (induction cs arbitrary: w tree)
  case Nil
  then show ?case by simp
next
  case (Cons c cs)
  show ?case
  proof (cases "config_exists e c")
    case False
    with Cons show ?thesis by simp
  next
    case True
    obtain r w1 where s: "shutil_copy td c w = (r, w1)" by force
    from Cons.prems have c: "c \<in> config_artifacts" by simp
    from shutil_copy_effect [OF c Cons.prems(2)] s obtain tree1 where
      w1: "events w1 = events w" "invocations w1 = invocations w"
      "filesystem w1 td = Some tree1"
      "non_config (walk_files (os_walk [] tree1)) = non_config (walk_files (os_walk [] tree))"
      by auto
    show ?thesis
    proof (cases r)
      case (Inl ex)
      with True s w1 show ?thesis by simp
    next
      case (Inr u)
      from Cons.prems have "set cs \<subseteq> config_artifacts" by simp
      from Cons.IH [OF this w1(3)] True s Inr w1 show ?thesis by simp
    qed
  qed
qed

lemma linter_config_names_artifacts: "set linter_config_names \<subseteq> config_artifacts"
  by (simp add: linter_config_names_def config_artifacts_def)

lemmas create_linter_configs_effect =
  copy_configs_effect [OF linter_config_names_artifacts, folded create_linter_configs_def]

section \<open>The run as a whole\<close>

lemma analyze_repo_cloned:
  assumes "clone_from e repo_url = Inr tree"
  shows "analyze_repo e repo_url w =
     (case create_linter_configs e (mkdtemp e) (cloned_world e repo_url tree w) of
        (Inl ex, w5) \<Rightarrow> (Inl ex, w5)
      | (Inr u, w5) \<Rightarrow>
          (case flat_loop e (mkdtemp e) (count_files (os_walk [] tree))
                  (walk_files (walk_dir w5 (mkdtemp e)))
                  \<lparr>results = initial_results, processed_files = 0\<rparr> w5 of
             (Inl ex, w6) \<Rightarrow> (Inl ex, w6)
           | (Inr st, w6) \<Rightarrow>
               (Inr (results st),
                log_callback (Cleaned_up (mkdtemp e)) (shutil_rmtree (mkdtemp e) w6))))"
  using assms
  by (cases w)
     (simp add: analyze_repo_def os_mkdtemp_def repo_clone_from_def log_callback_def
      status_callback_def cloned_world_def walk_dir_def walk_loop_flat Let_def
      split: prod.splits sum.splits)

lemma count_files_length: "count_files walk = length (walk_files walk)"
  by (induction walk) (auto simp: count_files_def walk_files_def)

lemma language_of_config: "name \<in> config_artifacts \<Longrightarrow> language_of name = None"
  by (simp add: language_of_def)

lemma dispatched_to_non_config: "dispatched_to L (non_config fs) = dispatched_to L fs"
  by (induction fs) (auto simp: dispatched_to_def non_config_def language_of_config)

lemma provisioned_walk:
  assumes "create_linter_configs e (mkdtemp e) (cloned_world e repo_url tree w) = (r5, w5)"
  shows "events w5 = events w @ [Log (Cloning repo_url), Status Cloning_complete]"
    and "invocations w5 = invocations w"
    and "non_config (walk_files (walk_dir w5 (mkdtemp e))) = non_config (walk_files (os_walk [] tree))"
proof -
  have fs: "filesystem (cloned_world e repo_url tree w) (mkdtemp e) = Some tree"
    by (simp add: cloned_world_def)
  from create_linter_configs_effect [OF fs, of e] assms
  obtain tree' where t: "events w5 = events (cloned_world e repo_url tree w)"
    "invocations w5 = invocations (cloned_world e repo_url tree w)"
    "filesystem w5 (mkdtemp e) = Some tree'"
    "non_config (walk_files (os_walk [] tree')) = non_config (walk_files (os_walk [] tree))"
    by auto
  from t(1) show "events w5 = events w @ [Log (Cloning repo_url), Status Cloning_complete]"
    by (simp add: cloned_world_def)
  from t(2) show "invocations w5 = invocations w"
    by (simp add: cloned_world_def)
  from t(3,4) show "non_config (walk_files (walk_dir w5 (mkdtemp e))) = non_config (walk_files (os_walk [] tree))"
    by (simp add: walk_dir_def)
qed

lemma report_lists:
  assumes cl: "clone_from e repo_url = Inr tree"
    and ret: "fst (analyze_repo e repo_url w) = Inr r"
  shows "map fst r = map fst initial_results"
    and "map_of initial_results L = Some [] \<Longrightarrow>
         \<exists>rs. map_of r L = Some (map Result rs) \<and>
              map file rs = map (\<lambda>(root, name). relpath root name)
                              (dispatched_to L (walk_files (os_walk [] tree)))"
proof -
  obtain r5 w5 where c: "create_linter_configs e (mkdtemp e) (cloned_world e repo_url tree w) = (r5, w5)"
    by force
  obtain r6 w6 where l: "flat_loop e (mkdtemp e) (count_files (os_walk [] tree))
      (walk_files (walk_dir w5 (mkdtemp e))) \<lparr>results = initial_results, processed_files = 0\<rparr> w5 = (r6, w6)"
    by force
  from ret c l obtain st where st: "r6 = Inr st" "r = results st"
    unfolding analyze_repo_cloned [OF cl] by (cases r5; cases r6) simp_all
  from l st have l': "flat_loop e (mkdtemp e) (count_files (os_walk [] tree))
      (walk_files (walk_dir w5 (mkdtemp e))) \<lparr>results = initial_results, processed_files = 0\<rparr> w5 = (Inr st, w6)"
    by simp
  from flat_loop_keys [OF l'] st show "map fst r = map fst initial_results" by simp
  assume "map_of initial_results L = Some []"
  then have "map_of (results \<lparr>results = initial_results, processed_files = 0\<rparr>) L = Some []" by simp
  from flat_loop_results [OF l' this] st
  obtain rs where rs: "map_of r L = Some (map Result rs)"
    "map file rs = map (\<lambda>(root, name). relpath root name)
       (dispatched_to L (walk_files (walk_dir w5 (mkdtemp e))))" by auto
  have "dispatched_to L (walk_files (walk_dir w5 (mkdtemp e))) =
        dispatched_to L (non_config (walk_files (walk_dir w5 (mkdtemp e))))"
    by (simp only: dispatched_to_non_config)
  also have "\<dots> = dispatched_to L (non_config (walk_files (os_walk [] tree)))"
    by (simp only: provisioned_walk(3) [OF c])
  also have "\<dots> = dispatched_to L (walk_files (os_walk [] tree))"
    by (simp only: dispatched_to_non_config)
  finally show "\<exists>rs. map_of r L = Some (map Result rs) \<and>
              map file rs = map (\<lambda>(root, name). relpath root name)
                              (dispatched_to L (walk_files (os_walk [] tree)))"
    using rs by auto
qed

lemma language_of_minified: "endswith name (lit ''.min.js'') \<Longrightarrow> language_of name = None"
  by (simp add: language_of_def min_js_ends_js min_js_not_py)

lemma analyze_javascript_minified:
  assumes "endswith file_path (lit ''.min.js'')"
  shows "invocations (snd (analyze_javascript e file_path rel_path temp_dir w)) = invocations w"
    and "invocations (snd (repo_analyzer_analyze_javascript e file_path rel_path temp_dir w)) =
           invocations w"
  using assms
  by (simp_all add: analyze_javascript_def repo_analyzer_analyze_javascript_def
      eslint_analysis_def log_callback_simps)

section \<open>The analyzers and their exceptions\<close>

text \<open>
  The four analyzers whose body is a \<^verbatim>\<open>try\<close> with an \<^verbatim>\<open>except Exception\<close> handler
  return a result whatever the tools do.
\<close>

lemma analyzers_with_handler_return:
  "\<exists>res. fst (analyze_python e fp rp td w) = Inr res"
  "\<exists>res. fst (analyze_html e fp rp td w) = Inr res"
  "\<exists>res. fst (analyze_css e fp rp td w) = Inr res"
  "\<exists>res. fst (analyze_java e fp rp w) = Inr res"
  by (simp_all add: analyze_python_def analyze_python_except_def analyze_html_def
      analyze_css_def analyze_java_def subprocess_run_def Let_def split: sum.splits)

text \<open>
  When the tool invocation raises \<open>ex\<close>, the HTML, CSS and Java analyzers return the
  substitute result: one error, no warning, and the issues text "Analysis failed: "
  followed by \<^verbatim>\<open>str(ex)\<close>. (For the Python analyzer see C10.)
\<close>

lemma handler_result:
  "run e \<lparr>argv = [path_join (node_modules_bin e) (lit ''htmlhint''), fp, lit ''--config'',
                  lit ''htmlhint.config.js''], cwd = Some td\<rparr> = Inl ex \<Longrightarrow>
   fst (analyze_html e fp rp td w) =
     Inr \<lparr>file = rp, issues = lit ''Analysis failed: '' @ str ex, error_count = 1,
          warning_count = 0, rating = None\<rparr>"
  "run e \<lparr>argv = [path_join (node_modules_bin e) (lit ''stylelint''), fp, lit ''--formatter'',
                  lit ''string'', lit ''--config'', lit ''stylelint.config.js''],
          cwd = Some td\<rparr> = Inl ex \<Longrightarrow>
   fst (analyze_css e fp rp td w) =
     Inr \<lparr>file = rp, issues = lit ''Analysis failed: '' @ str ex, error_count = 1,
          warning_count = 0, rating = None\<rparr>"
  "run e (java_invocation e fp) = Inl ex \<Longrightarrow>
   fst (analyze_java e fp rp w) =
     Inr \<lparr>file = rp, issues = lit ''Analysis failed: '' @ str ex, error_count = 1,
          warning_count = 0, rating = None\<rparr>"
  by (simp_all add: analyze_html_def analyze_css_def analyze_java_def java_invocation_def
      subprocess_run_def Let_def)

text \<open>
  C1 (the claim: no analyzer lets an exception reach the orchestrator). Both
  definitions of \<^verbatim>\<open>analyze_javascript\<close> call \<^verbatim>\<open>subprocess.run\<close> outside any \<^verbatim>\<open>try\<close>.
  With no tool installed, a checkout holding the single file \<^verbatim>\<open>app.js\<close> makes each of
  them raise the \<^verbatim>\<open>FileNotFoundError\<close> of the missing executable, and the exception
  leaves \<^verbatim>\<open>analyze_repo\<close> as well.
\<close>

theorem javascript_exception_propagates:
  "fst (analyze_javascript (env_with (Inr (Dir [lit ''app.js''] [])) tool_missing [])
         (lit ''/tmp/tmpk3x/app.js'') (lit ''app.js'') (lit ''/tmp/tmpk3x'') empty_world) =
     Inl (os_error ''[Errno 2] No such file or directory: '' (lit ''eslint'')) \<and>
   fst (repo_analyzer_analyze_javascript (env_with (Inr (Dir [lit ''app.js''] [])) tool_missing [])
         (lit ''/tmp/tmpk3x/app.js'') (lit ''app.js'') (lit ''/tmp/tmpk3x'') empty_world) =
     Inl (os_error ''[Errno 2] No such file or directory: '' (lit ''npx'')) \<and>
   fst (analyze_repo (env_with (Inr (Dir [lit ''app.js''] [])) tool_missing [])
         (lit ''https://example.org/repo.git'') empty_world) =
     Inl (os_error ''[Errno 2] No such file or directory: '' (lit ''npx''))"
  by (simp add: repo_eval analyzer_eval string_eval run_eval)

section \<open>The workspace directory\<close>

lemma workspace_removed_on_return:
  assumes cl: "clone_from e repo_url = Inr tree" and ret: "fst (analyze_repo e repo_url w) = Inr r"
  shows "filesystem (snd (analyze_repo e repo_url w)) (mkdtemp e) = None"
proof -
  obtain r5 w5 where c: "create_linter_configs e (mkdtemp e) (cloned_world e repo_url tree w) = (r5, w5)"
    by force
  obtain r6 w6 where l: "flat_loop e (mkdtemp e) (count_files (os_walk [] tree))
      (walk_files (walk_dir w5 (mkdtemp e))) \<lparr>results = initial_results, processed_files = 0\<rparr> w5 = (r6, w6)"
    by force
  from ret c l show ?thesis
    unfolding analyze_repo_cloned [OF cl]
    by (simp add: log_callback_simps shutil_rmtree_def split: sum.splits)
qed

text \<open>
  C2 (the claim: the workspace directory is removed on every exit path). After a failed
  clone the directory made by \<^verbatim>\<open>mkdtemp\<close> still exists when \<^verbatim>\<open>analyze_repo\<close> has
  returned, and after an exception during the walk it still exists with the checkout in
  it. Only a run that returns the five-language report removes it
  (\<open>workspace_removed_on_return\<close>).
\<close>

theorem workspace_left_behind:
  "filesystem (snd (analyze_repo
       (env_with (Inl (Exception (lit ''repository not found''))) tool_missing [])
       (lit ''https://example.org/none.git'') empty_world)) (lit ''/tmp/tmpk3x'') = Some (Dir [] []) \<and>
   filesystem (snd (analyze_repo (env_with (Inr (Dir [lit ''app.js''] [])) tool_missing [])
       (lit ''https://example.org/repo.git'') empty_world)) (lit ''/tmp/tmpk3x'') =
     Some (Dir [lit ''app.js''] [])"
  by (simp add: repo_eval analyzer_eval string_eval run_eval)

section \<open>Clone failure\<close>

text \<open>
  C3. When the clone fails with the exception \<open>ex\<close>, \<^verbatim>\<open>analyze_repo\<close> returns the
  dictionary whose only key is "Error", mapped to the one-element list holding
  \<^verbatim>\<open>str(ex)\<close>; no tool is invoked, and the only events are the two log lines about the
  clone, so no analyzer has run.
\<close>

theorem clone_failure_report:
  assumes "clone_from e repo_url = Inl ex"
  shows "fst (analyze_repo e repo_url w) = Inr [(lit ''Error'', [Message (str ex)])] \<and>
         invocations (snd (analyze_repo e repo_url w)) = invocations w \<and>
         events (snd (analyze_repo e repo_url w)) =
           events w @ [Log (Cloning repo_url), Log (Clone_error (str ex))]"
  using assms
  by (simp add: analyze_repo_def os_mkdtemp_def repo_clone_from_def log_callback_def Let_def)

text \<open>C3 at an unreachable repository.\<close>

theorem clone_failure_report_witness:
  "clone_from (env_with (Inl (Exception (lit ''repository not found''))) tool_missing [])
     (lit ''https://example.org/none.git'') = Inl (Exception (lit ''repository not found'')) \<and>
   fst (analyze_repo (env_with (Inl (Exception (lit ''repository not found''))) tool_missing [])
     (lit ''https://example.org/none.git'') empty_world) =
     Inr [(lit ''Error'', [Message (lit ''repository not found'')])] \<and>
   invocations (snd (analyze_repo (env_with (Inl (Exception (lit ''repository not found''))) tool_missing [])
     (lit ''https://example.org/none.git'') empty_world)) = [] \<and>
   events (snd (analyze_repo (env_with (Inl (Exception (lit ''repository not found''))) tool_missing [])
     (lit ''https://example.org/none.git'') empty_world)) =
     [Log (Cloning (lit ''https://example.org/none.git'')),
      Log (Clone_error (lit ''repository not found''))]"
proof -
  have h: "clone_from (env_with (Inl (Exception (lit ''repository not found''))) tool_missing [])
     (lit ''https://example.org/none.git'') = Inl (Exception (lit ''repository not found''))"
    by (simp add: env_with_def)
  from clone_failure_report [OF h, of empty_world] h show ?thesis
    by (simp add: empty_world_def)
qed

section \<open>The Python analyzer\<close>

text \<open>
  C4, as the code has it. When both tools run, the Pylint text is Pylint's standard
  output for exit code 0 or 1 and its standard error otherwise; \<open>error_count\<close> is
  the number of occurrences of "error" and of "Error" in that text plus the number of
  lines of Flake8's standard output once leading and trailing whitespace is stripped
  (so a blank line between two findings counts); \<open>warning_count\<close> is the number of
  occurrences of "warning" and of "Warning" in the Pylint text; and the rating is "Good"
  for no error and no warning, "Poor" for more than five errors, "Needs Improvement"
  otherwise.
\<close>

theorem python_result:
  assumes "run e (pylint_invocation file_path temp_dir) = Inr p"
      and "run e (flake8_invocation file_path temp_dir) = Inr f"
  shows "\<exists>res. fst (analyze_python e file_path rel_path temp_dir w) = Inr res \<and>
     (let text = (if returncode p = 0 \<or> returncode p = 1 then stdout p else stderr p);
          flake8_text = strip (stdout f)
      in issues res = lit ''Pylint Issues:'' @ [0x0A] @ text @ [0x0A, 0x0A] @
                      lit ''Flake8 Issues:'' @ [0x0A] @ flake8_text \<and>
         error_count res = occurrences (lit ''error'') text + occurrences (lit ''Error'') text +
                           length (splitlines flake8_text) \<and>
         warning_count res = occurrences (lit ''warning'') text + occurrences (lit ''Warning'') text \<and>
         rating res = Some (if error_count res = 0 \<and> warning_count res = 0 then lit ''Good''
                            else if error_count res > 5 then lit ''Poor''
                            else lit ''Needs Improvement''))"
  using assms
  by (simp add: analyze_python_def subprocess_run_def pylint_invocation_def flake8_invocation_def
      Let_def needle_counts splitlines_empty)

text \<open>C4 on a file for which both tools print two findings separated by a blank line.\<close>

theorem python_result_witness:
  "run (env_with (Inr (Dir [lit ''m.py''] [])) (tool_prints flake8_style_output) [])
     (pylint_invocation (lit ''/tmp/tmpk3x/m.py'') (lit ''/tmp/tmpk3x'')) =
     Inr \<lparr>returncode = 0, stdout = flake8_style_output, stderr = []\<rparr> \<and>
   run (env_with (Inr (Dir [lit ''m.py''] [])) (tool_prints flake8_style_output) [])
     (flake8_invocation (lit ''/tmp/tmpk3x/m.py'') (lit ''/tmp/tmpk3x'')) =
     Inr \<lparr>returncode = 0, stdout = flake8_style_output, stderr = []\<rparr> \<and>
   (\<exists>res. fst (analyze_python (env_with (Inr (Dir [lit ''m.py''] [])) (tool_prints flake8_style_output) [])
              (lit ''/tmp/tmpk3x/m.py'') (lit ''m.py'') (lit ''/tmp/tmpk3x'') empty_world) = Inr res \<and>
          error_count res = 3 \<and> warning_count res = 0 \<and>
          rating res = Some (lit ''Needs Improvement''))"
proof -
  let ?e = "env_with (Inr (Dir [lit ''m.py''] [])) (tool_prints flake8_style_output) []"
  let ?p = "\<lparr>returncode = 0, stdout = flake8_style_output, stderr = []\<rparr>"
  have h1: "run ?e (pylint_invocation (lit ''/tmp/tmpk3x/m.py'') (lit ''/tmp/tmpk3x'')) = Inr ?p"
    by (simp add: env_with_def tool_prints_def)
  have h2: "run ?e (flake8_invocation (lit ''/tmp/tmpk3x/m.py'') (lit ''/tmp/tmpk3x'')) = Inr ?p"
    by (simp add: env_with_def tool_prints_def)
  have v: "occurrences (lit ''error'') flake8_style_output = 0"
    "occurrences (lit ''Error'') flake8_style_output = 0"
    "occurrences (lit ''warning'') flake8_style_output = 0"
    "occurrences (lit ''Warning'') flake8_style_output = 0"
    "length (splitlines (strip flake8_style_output)) = 3"
    by (simp_all add: flake8_style_output_def string_eval)
  from python_result [OF h1 h2, of "lit ''m.py''" empty_world] v obtain res where
    "fst (analyze_python ?e (lit ''/tmp/tmpk3x/m.py'') (lit ''m.py'') (lit ''/tmp/tmpk3x'')
       empty_world) = Inr res"
    "error_count res = 3" "warning_count res = 0"
    "rating res = Some (if error_count res = 0 \<and> warning_count res = 0 then lit ''Good''
                        else if error_count res > 5 then lit ''Poor''
                        else lit ''Needs Improvement'')"
    by (auto simp: Let_def simp del: occurrences.simps)
  with h1 h2 show ?thesis by simp
qed

text \<open>
  C4 as claimed fails on that output: the claim counts the two non-empty lines of
  Flake8's output, the code counts three lines.
\<close>

theorem python_blank_line_counterexample:
  "fst (analyze_python (env_with (Inr (Dir [lit ''m.py''] [])) (tool_prints flake8_style_output) [])
          (lit ''/tmp/tmpk3x/m.py'') (lit ''m.py'') (lit ''/tmp/tmpk3x'') empty_world) =
     Inr \<lparr>file = lit ''m.py'',
          issues = lit ''Pylint Issues:'' @ [0x0A] @ flake8_style_output @ [0x0A, 0x0A] @
                   lit ''Flake8 Issues:'' @ [0x0A] @ strip flake8_style_output,
          error_count = 3, warning_count = 0, rating = Some (lit ''Needs Improvement'')\<rparr> \<and>
   occurrences (lit ''error'') flake8_style_output + occurrences (lit ''Error'') flake8_style_output +
     nonempty_lines flake8_style_output = 2"
  by (simp add: analyze_python_def flake8_style_output_def string_eval run_eval)

text \<open>
  C10. When a tool invocation of the Python analyzer raises \<open>ex\<close>, the result carries
  the rating "Error", which is none of "Good", "Needs Improvement" and "Poor".
\<close>

theorem python_failure_rating:
  assumes "python_tool_failure e file_path temp_dir = Some ex"
  shows "fst (analyze_python e file_path rel_path temp_dir w) =
           Inr \<lparr>file = rel_path, issues = lit ''Analysis failed: '' @ str ex,
                error_count = 1, warning_count = 0, rating = Some (lit ''Error'')\<rparr> \<and>
         lit ''Error'' \<notin> {lit ''Good'', lit ''Needs Improvement'', lit ''Poor''}"
  using assms
  by (auto simp: python_tool_failure_def analyze_python_def analyze_python_except_def
      subprocess_run_def pylint_invocation_def flake8_invocation_def Let_def lit_def
      split: sum.splits)

text \<open>C10 with Pylint not installed; the rating reaches the report of the run.\<close>

theorem python_failure_rating_witness:
  "python_tool_failure (env_with (Inr (Dir [lit ''m.py''] [])) tool_missing [])
     (lit ''/tmp/tmpk3x/m.py'') (lit ''/tmp/tmpk3x'') =
     Some (os_error ''[Errno 2] No such file or directory: '' (lit ''pylint'')) \<and>
   fst (analyze_python (env_with (Inr (Dir [lit ''m.py''] [])) tool_missing [])
          (lit ''/tmp/tmpk3x/m.py'') (lit ''m.py'') (lit ''/tmp/tmpk3x'') empty_world) =
     Inr \<lparr>file = lit ''m.py'',
          issues = lit ''Analysis failed: '' @
                   str (os_error ''[Errno 2] No such file or directory: '' (lit ''pylint'')),
          error_count = 1, warning_count = 0, rating = Some (lit ''Error'')\<rparr> \<and>
   fst (analyze_repo (env_with (Inr (Dir [lit ''m.py''] [])) tool_missing [])
          (lit ''https://example.org/repo.git'') empty_world) =
     Inr [(lit ''Python'',
           [Result \<lparr>file = lit ''m.py'',
                    issues = lit ''Analysis failed: '' @
                      str (os_error ''[Errno 2] No such file or directory: '' (lit ''pylint'')),
                    error_count = 1, warning_count = 0, rating = Some (lit ''Error'')\<rparr>]),
          (lit ''JavaScript'', []), (lit ''HTML'', []), (lit ''CSS'', []), (lit ''Java'', [])]"
proof -
  let ?e = "env_with (Inr (Dir [lit ''m.py''] [])) tool_missing []"
  have h: "python_tool_failure ?e (lit ''/tmp/tmpk3x/m.py'') (lit ''/tmp/tmpk3x'') =
     Some (os_error ''[Errno 2] No such file or directory: '' (lit ''pylint''))"
    by (simp add: python_tool_failure_def env_with_def tool_missing_def pylint_invocation_def)
  have r: "fst (analyze_repo ?e (lit ''https://example.org/repo.git'') empty_world) =
     Inr [(lit ''Python'',
           [Result \<lparr>file = lit ''m.py'',
                    issues = lit ''Analysis failed: '' @
                      str (os_error ''[Errno 2] No such file or directory: '' (lit ''pylint'')),
                    error_count = 1, warning_count = 0, rating = Some (lit ''Error'')\<rparr>]),
          (lit ''JavaScript'', []), (lit ''HTML'', []), (lit ''CSS'', []), (lit ''Java'', [])]"
    by (simp add: repo_eval analyzer_eval string_eval run_eval)
  from python_failure_rating [OF h, of "lit ''m.py''" empty_world] h r show ?thesis
    by blast
qed

section \<open>The Java analyzer\<close>

text \<open>
  With exit code 1 the HTML and CSS analyzers take the standard output and the
  JavaScript analyzer takes it whatever the exit code, while the Java analyzer takes the
  standard error.
\<close>

lemma exit_code_one_elsewhere:
  assumes "returncode result = 1" and "run e = (\<lambda>i. Inr result)"
  shows "\<exists>res. fst (analyze_html e fp rp td w) = Inr res \<and> issues res = stdout result"
    and "\<exists>res. fst (analyze_css e fp rp td w) = Inr res \<and> issues res = stdout result"
    and "\<exists>res. fst (eslint_analysis e cmd fp rp td w) = Inr res \<and>
           (issues res = strip (stdout result) \<or> issues res = lit ''Minified files are skipped.'')"
    and "\<exists>res. fst (analyze_python e fp rp td w) = Inr res \<and>
           issues res = lit ''Pylint Issues:'' @ [0x0A] @ stdout result @ [0x0A, 0x0A] @
                        lit ''Flake8 Issues:'' @ [0x0A] @ strip (stdout result)"
    and "\<exists>res. fst (analyze_java e fp rp w) = Inr res \<and> issues res = stderr result"
  using assms
  by (simp_all add: analyze_html_def analyze_css_def eslint_analysis_def analyze_python_def
      analyze_java_def subprocess_run_def Let_def)

text \<open>
  C8. When Checkstyle runs, the issues text is its standard output for exit code 0 and
  its standard error for any other exit code, exit code 1 included; \<open>error_count\<close>
  is the number of occurrences of "ERROR" in that text and \<open>warning_count\<close> the number of
  occurrences of "WARN".
\<close>

theorem java_result:
  assumes "run e (java_invocation e file_path) = Inr result"
  shows "\<exists>res. fst (analyze_java e file_path rel_path w) = Inr res \<and>
     file res = rel_path \<and>
     issues res = (if returncode result = 0 then stdout result else stderr result) \<and>
     error_count res = str_count (issues res) (lit ''ERROR'') \<and>
     error_count res = occurrences (lit ''ERROR'') (issues res) \<and>
     warning_count res = str_count (issues res) (lit ''WARN'') \<and>
     warning_count res = occurrences (lit ''WARN'') (issues res) \<and>
     (returncode result = 1 \<longrightarrow> issues res = stderr result)"
  using assms
  by (simp add: analyze_java_def subprocess_run_def java_invocation_def Let_def needle_counts)

text \<open>C8 on a Checkstyle run that exits with code 1.\<close>

theorem java_result_witness:
  "run (env_with (Inr (Dir [lit ''A.java''] [])) (\<lambda>i. Inr checkstyle_output) [])
     (java_invocation (env_with (Inr (Dir [lit ''A.java''] [])) (\<lambda>i. Inr checkstyle_output) [])
        (lit ''/tmp/tmpk3x/A.java'')) = Inr checkstyle_output \<and>
   returncode checkstyle_output = 1 \<and>
   (\<exists>res. fst (analyze_java (env_with (Inr (Dir [lit ''A.java''] [])) (\<lambda>i. Inr checkstyle_output) [])
              (lit ''/tmp/tmpk3x/A.java'') (lit ''A.java'') empty_world) = Inr res \<and>
          issues res = stderr checkstyle_output \<and> error_count res = 2 \<and> warning_count res = 1)"
proof -
  let ?e = "env_with (Inr (Dir [lit ''A.java''] [])) (\<lambda>i. Inr checkstyle_output) []"
  have h: "run ?e (java_invocation ?e (lit ''/tmp/tmpk3x/A.java'')) = Inr checkstyle_output"
    by (simp add: env_with_def)
  have rc: "returncode checkstyle_output = 1"
    by (simp add: checkstyle_output_def)
  have v: "occurrences (lit ''ERROR'') (stderr checkstyle_output) = 2"
    "occurrences (lit ''WARN'') (stderr checkstyle_output) = 1"
    by (simp_all add: checkstyle_output_def string_eval)
  from java_result [OF h, of "lit ''A.java''" empty_world] obtain res where
    "fst (analyze_java ?e (lit ''/tmp/tmpk3x/A.java'') (lit ''A.java'') empty_world) = Inr res"
    "issues res = (if returncode checkstyle_output = 0 then stdout checkstyle_output
                   else stderr checkstyle_output)"
    "error_count res = occurrences (lit ''ERROR'') (issues res)"
    "warning_count res = occurrences (lit ''WARN'') (issues res)"
    by blast
  with rc v h show ?thesis by simp
qed

section \<open>Files the walk skips\<close>

text \<open>
  C5, as the code has it. For a file whose name ends in ".min.js" the loop body leaves
  the report as it is and invokes no tool; it counts the file as processed and emits
  the progress status, the "Processing" log line and the skip log line, in this order.
  The file is not among those filed under any key of the report.
\<close>

theorem minified_file_step:
  assumes "endswith name (lit ''.min.js'')"
  shows "process_file e temp_dir total_files root name st w =
           (Inr (st\<lparr>processed_files := processed_files st + 1\<rparr>),
            w\<lparr>events := events w @
               [Status (Analyzing (processed_files st + 1) total_files (relpath root name)),
                Log (Processing (relpath root name)),
                Log (Skipping_minified (relpath root name))]\<rparr>) \<and>
         (root, name) \<notin> set (dispatched_to L fs)"
proof -
  from assms have "name \<notin> config_artifacts"
    using config_artifact_suffixes(1) by blast
  with assms show ?thesis
    by (simp add: process_file_def Let_def min_js_ends_js min_js_not_py log_callback_def
        status_callback_def dispatched_to_def language_of_minified)
qed

text \<open>C5 on \<^verbatim>\<open>static/lib.min.js\<close>.\<close>

theorem minified_file_step_witness:
  "endswith (lit ''lib.min.js'') (lit ''.min.js'') \<and>
   process_file (env_with (Inr (Dir [lit ''lib.min.js''] [])) tool_missing [])
       (lit ''/tmp/tmpk3x'') 1 [lit ''static''] (lit ''lib.min.js'')
       \<lparr>results = initial_results, processed_files = 0\<rparr> empty_world =
     (Inr \<lparr>results = initial_results, processed_files = 1\<rparr>,
      \<lparr>events = [Status (Analyzing 1 1 (lit ''static/lib.min.js'')),
                 Log (Processing (lit ''static/lib.min.js'')),
                 Log (Skipping_minified (lit ''static/lib.min.js''))],
       invocations = [], filesystem = Map.empty\<rparr>)"
proof -
  have h: "endswith (lit ''lib.min.js'') (lit ''.min.js'')"
    by (simp add: string_eval)
  from minified_file_step [OF h, of "env_with (Inr (Dir [lit ''lib.min.js''] [])) tool_missing []"
      "lit ''/tmp/tmpk3x''" 1 "[lit ''static'']" "\<lparr>results = initial_results, processed_files = 0\<rparr>"
      empty_world]
  have "process_file (env_with (Inr (Dir [lit ''lib.min.js''] [])) tool_missing [])
       (lit ''/tmp/tmpk3x'') 1 [lit ''static''] (lit ''lib.min.js'')
       \<lparr>results = initial_results, processed_files = 0\<rparr> empty_world =
     (Inr \<lparr>results = initial_results, processed_files = 1\<rparr>,
      \<lparr>events = [Status (Analyzing 1 1 (relpath [lit ''static''] (lit ''lib.min.js''))),
                 Log (Processing (relpath [lit ''static''] (lit ''lib.min.js''))),
                 Log (Skipping_minified (relpath [lit ''static''] (lit ''lib.min.js'')))],
       invocations = [], filesystem = Map.empty\<rparr>)"
    by (simp add: empty_world_def)
  moreover have "relpath [lit ''static''] (lit ''lib.min.js'') = lit ''static/lib.min.js''"
    by (simp add: relpath_def lit_def)
  ultimately show ?thesis using h by simp
qed

text \<open>
  C5 as claimed fails where it says that only a skip log event is emitted: in the run on
  a checkout holding \<^verbatim>\<open>lib.min.js\<close> alone, the file also gets a progress status event
  and a "Processing" log event.
\<close>

theorem minified_events_counterexample:
  "events (snd (analyze_repo (env_with (Inr (Dir [lit ''lib.min.js''] [])) tool_missing [])
      (lit ''https://example.org/repo.git'') empty_world)) =
     [Log (Cloning (lit ''https://example.org/repo.git'')), Status Cloning_complete,
      Status (Analyzing 1 1 (lit ''lib.min.js'')),
      Log (Processing (lit ''lib.min.js'')),
      Log (Skipping_minified (lit ''lib.min.js'')),
      Log (Cleaned_up (lit ''/tmp/tmpk3x''))]"
  by (simp add: repo_eval analyzer_eval string_eval run_eval)

text \<open>
  C6. For a file named as one of the four configuration artifacts, in whatever
  directory \<open>root\<close> of the workspace, the loop body changes neither the report nor the
  processed count, invokes no tool and emits the skip log line only; the file is not
  among those filed under any key of the report.
\<close>

theorem config_artifact_step:
  assumes "name \<in> {lit ''.pylintrc'', lit ''eslintconfig.js'', lit ''htmlhint.config.js'',
                    lit ''stylelint.config.js''}"
  shows "process_file e temp_dir total_files root name st w =
           (Inr st, w\<lparr>events := events w @ [Log (Skipping_config name)]\<rparr>) \<and>
         (root, name) \<notin> set (dispatched_to L fs)"
proof -
  from assms have "name \<in> config_artifacts"
    by (simp add: config_artifacts_def)
  then show ?thesis
    by (simp add: process_file_config log_callback_def dispatched_to_def language_of_config)
qed

text \<open>
  C6 on \<^verbatim>\<open>web/conf/eslintconfig.js\<close>; three of the four names end in ".js".
\<close>

theorem config_artifact_step_witness:
  "lit ''eslintconfig.js'' \<in> {lit ''.pylintrc'', lit ''eslintconfig.js'', lit ''htmlhint.config.js'',
                    lit ''stylelint.config.js''} \<and>
   endswith (lit ''eslintconfig.js'') (lit ''.js'') \<and>
   endswith (lit ''htmlhint.config.js'') (lit ''.js'') \<and>
   endswith (lit ''stylelint.config.js'') (lit ''.js'') \<and>
   process_file (env_with (Inr (Dir [] [])) tool_missing [])
       (lit ''/tmp/tmpk3x'') 7 [lit ''web'', lit ''conf''] (lit ''eslintconfig.js'')
       \<lparr>results = initial_results, processed_files = 3\<rparr> empty_world =
     (Inr \<lparr>results = initial_results, processed_files = 3\<rparr>,
      \<lparr>events = [Log (Skipping_config (lit ''eslintconfig.js''))],
       invocations = [], filesystem = Map.empty\<rparr>)"
proof -
  have h: "lit ''eslintconfig.js'' \<in> {lit ''.pylintrc'', lit ''eslintconfig.js'',
      lit ''htmlhint.config.js'', lit ''stylelint.config.js''}"
    by simp
  have js: "endswith (lit ''eslintconfig.js'') (lit ''.js'')"
    "endswith (lit ''htmlhint.config.js'') (lit ''.js'')"
    "endswith (lit ''stylelint.config.js'') (lit ''.js'')"
    by (simp_all add: string_eval)
  from config_artifact_step [OF h, of "env_with (Inr (Dir [] [])) tool_missing []"
      "lit ''/tmp/tmpk3x''" 7 "[lit ''web'', lit ''conf'']"
      "\<lparr>results = initial_results, processed_files = 3\<rparr>" empty_world]
  have "process_file (env_with (Inr (Dir [] [])) tool_missing [])
       (lit ''/tmp/tmpk3x'') 7 [lit ''web'', lit ''conf''] (lit ''eslintconfig.js'')
       \<lparr>results = initial_results, processed_files = 3\<rparr> empty_world =
     (Inr \<lparr>results = initial_results, processed_files = 3\<rparr>,
      \<lparr>events = [Log (Skipping_config (lit ''eslintconfig.js''))],
       invocations = [], filesystem = Map.empty\<rparr>)"
    by (simp add: empty_world_def)
  with h js show ?thesis by blast
qed

section \<open>Progress events\<close>

text \<open>
  C7, as the code has it. In a run whose clone succeeds, the status events are "Cloning
  complete" and then progress events whose denominator is the file count of the
  checkout as cloned, taken before the configuration files are provisioned, and whose
  numerators are 1, 2, 3, ... over the files of the walk that are not configuration
  artifacts, minified scripts and files of no analyzer included. A run that returns
  emits one for every such file; a run that an exception ends emits them up to the file
  being processed.
\<close>

theorem progress_of_run:
  assumes cl: "clone_from e repo_url = Inr tree"
  shows "\<exists>evs. statuses (events (snd (analyze_repo e repo_url w))) =
                 statuses (events w) @ Cloning_complete # evs \<and>
               prefix evs (progress_events 0 (count_files (os_walk [] tree))
                             (non_config (walk_files (os_walk [] tree)))) \<and>
               (\<not> isl (fst (analyze_repo e repo_url w)) \<longrightarrow>
                  evs = progress_events 0 (count_files (os_walk [] tree))
                          (non_config (walk_files (os_walk [] tree))))"
proof -
  let ?n = "count_files (os_walk [] tree)"
  let ?init = "\<lparr>results = initial_results, processed_files = 0\<rparr>"
  obtain r5 w5 where c: "create_linter_configs e (mkdtemp e) (cloned_world e repo_url tree w) = (r5, w5)"
    by force
  note pw = provisioned_walk [OF c]
  have s5: "statuses (events w5) = statuses (events w) @ [Cloning_complete]"
    by (simp add: pw(1) statuses_append)
  show ?thesis
  proof (cases r5)
    case (Inl ex)
    with c have "analyze_repo e repo_url w = (Inl ex, w5)"
      unfolding analyze_repo_cloned [OF cl] by simp
    with s5 show ?thesis by simp
  next
    case (Inr u)
    obtain r6 w6 where l: "flat_loop e (mkdtemp e) ?n (walk_files (walk_dir w5 (mkdtemp e))) ?init w5 = (r6, w6)"
      by force
    from flat_loop_progress_prefix [of e "mkdtemp e" ?n "walk_files (walk_dir w5 (mkdtemp e))" ?init w5] l
    obtain evs where evs: "statuses (events w6) = statuses (events w5) @ evs"
      "prefix evs (progress_events 0 ?n (non_config (walk_files (os_walk [] tree))))"
      by (auto simp: pw(3))
    show ?thesis
    proof (cases r6)
      case (Inl ex)
      with c l Inr have "analyze_repo e repo_url w = (Inl ex, w6)"
        unfolding analyze_repo_cloned [OF cl] by simp
      with evs s5 show ?thesis by simp
    next
      case st: (Inr st)
      with c l Inr have a: "analyze_repo e repo_url w =
          (Inr (results st), log_callback (Cleaned_up (mkdtemp e)) (shutil_rmtree (mkdtemp e) w6))"
        unfolding analyze_repo_cloned [OF cl] by simp
      from l st have "flat_loop e (mkdtemp e) ?n (walk_files (walk_dir w5 (mkdtemp e))) ?init w5 = (Inr st, w6)"
        by simp
      from flat_loop_progress_returned [OF this]
      have "statuses (events w6) = statuses (events w5) @
              progress_events 0 ?n (non_config (walk_files (os_walk [] tree)))"
        by (simp add: pw(3))
      with a s5 show ?thesis
        by (simp add: log_callback_simps shutil_rmtree_def statuses_append)
    qed
  qed
qed

text \<open>C7 on a checkout with a file of no analyzer, a minified script and a Python file.\<close>

theorem progress_of_run_witness:
  "clone_from (env_with (Inr mixed_checkout) (tool_prints []) [lit ''.pylintrc''])
     (lit ''https://example.org/repo.git'') = Inr mixed_checkout \<and>
   \<not> isl (fst (analyze_repo (env_with (Inr mixed_checkout) (tool_prints []) [lit ''.pylintrc''])
     (lit ''https://example.org/repo.git'') empty_world)) \<and>
   statuses (events (snd (analyze_repo (env_with (Inr mixed_checkout) (tool_prints []) [lit ''.pylintrc''])
     (lit ''https://example.org/repo.git'') empty_world))) =
     Cloning_complete #
     progress_events 0 (count_files (os_walk [] mixed_checkout))
       (non_config (walk_files (os_walk [] mixed_checkout)))"
proof -
  let ?e = "env_with (Inr mixed_checkout) (tool_prints []) [lit ''.pylintrc'']"
  have h: "clone_from ?e (lit ''https://example.org/repo.git'') = Inr mixed_checkout"
    by (simp add: env_with_def)
  have r: "\<not> isl (fst (analyze_repo ?e (lit ''https://example.org/repo.git'') empty_world))"
    by (simp add: mixed_checkout_def repo_eval analyzer_eval string_eval run_eval)
  from progress_of_run [OF h, of empty_world] r h show ?thesis
    by (auto simp: empty_world_def)
qed

text \<open>
  C7 as claimed fails on that checkout: with the Pylint configuration provisioned the
  workspace holds four files when the walk begins, yet every denominator is 3; and the
  Python file, the only one dispatched to an analyzer, gets the numerator 3.
\<close>

theorem progress_total_counterexample:
  "statuses (events (snd (analyze_repo
       (env_with (Inr mixed_checkout) (tool_prints []) [lit ''.pylintrc''])
       (lit ''https://example.org/repo.git'') empty_world))) =
     [Cloning_complete, Analyzing 1 3 (lit ''README''), Analyzing 2 3 (lit ''lib.min.js''),
      Analyzing 3 3 (lit ''a.py'')] \<and>
   count_files (walk_dir
       (snd (create_linter_configs (env_with (Inr mixed_checkout) (tool_prints []) [lit ''.pylintrc''])
          (lit ''/tmp/tmpk3x'')
          (cloned_world (env_with (Inr mixed_checkout) (tool_prints []) [lit ''.pylintrc''])
             (lit ''https://example.org/repo.git'') mixed_checkout empty_world)))
       (lit ''/tmp/tmpk3x'')) = 4 \<and>
   map language_of (dir_files mixed_checkout) = [None, None, Some (lit ''Python'')]"
  by (simp add: mixed_checkout_def repo_eval analyzer_eval string_eval run_eval)

section \<open>The report\<close>

text \<open>
  C9. The report of a run whose clone succeeds has exactly the keys "Python",
  "JavaScript", "HTML", "CSS" and "Java", in this order, and not "Error"; each is mapped
  to the list of the results of the files filed under it, in walk order, which is the
  empty list for a language without such files.
\<close>

theorem report_keys:
  assumes cl: "clone_from e repo_url = Inr tree"
    and ret: "fst (analyze_repo e repo_url w) = Inr r"
  shows "map fst r = [lit ''Python'', lit ''JavaScript'', lit ''HTML'', lit ''CSS'', lit ''Java''] \<and>
         lit ''Error'' \<notin> set (map fst r) \<and>
         (\<forall>L \<in> set (map fst r).
            \<exists>rs. map_of r L = Some (map Result rs) \<and>
                 map file rs = map (\<lambda>(root, name). relpath root name)
                                 (dispatched_to L (walk_files (os_walk [] tree))) \<and>
                 (dispatched_to L (walk_files (os_walk [] tree)) = [] \<longrightarrow> map_of r L = Some []))"
proof -
  have keys: "map fst r = [lit ''Python'', lit ''JavaScript'', lit ''HTML'', lit ''CSS'', lit ''Java'']"
    using report_lists(1) [OF cl ret] by (simp add: initial_results_def)
  have no_error: "lit ''Error'' \<notin> set (map fst r)"
    unfolding keys by (simp add: lit_def)
  have lists: "\<exists>rs. map_of r L = Some (map Result rs) \<and>
                 map file rs = map (\<lambda>(root, name). relpath root name)
                                 (dispatched_to L (walk_files (os_walk [] tree))) \<and>
                 (dispatched_to L (walk_files (os_walk [] tree)) = [] \<longrightarrow> map_of r L = Some [])"
    if "L \<in> set (map fst r)" for L
  proof -
    from that have "map_of initial_results L = Some []"
      unfolding keys by (auto simp: initial_results_def lit_def)
    from report_lists(2) [OF cl ret this] show ?thesis by auto
  qed
  from keys no_error lists show ?thesis by blast
qed

text \<open>C9 on a checkout with one Python file and no Java file.\<close>

theorem report_keys_witness:
  "clone_from (env_with (Inr mixed_checkout) (tool_prints []) [lit ''.pylintrc''])
     (lit ''https://example.org/repo.git'') = Inr mixed_checkout \<and>
   fst (analyze_repo (env_with (Inr mixed_checkout) (tool_prints []) [lit ''.pylintrc''])
     (lit ''https://example.org/repo.git'') empty_world) =
     Inr [(lit ''Python'',
           [Result \<lparr>file = lit ''a.py'',
                    issues = lit ''Pylint Issues:'' @ [0x0A, 0x0A, 0x0A] @ lit ''Flake8 Issues:'' @ [0x0A],
                    error_count = 0, warning_count = 0, rating = Some (lit ''Good'')\<rparr>]),
          (lit ''JavaScript'', []), (lit ''HTML'', []), (lit ''CSS'', []), (lit ''Java'', [])] \<and>
   lit ''Java'' \<in> set [lit ''Python'', lit ''JavaScript'', lit ''HTML'', lit ''CSS'', lit ''Java''] \<and>
   dispatched_to (lit ''Java'') (walk_files (os_walk [] mixed_checkout)) = []"
proof -
  let ?e = "env_with (Inr mixed_checkout) (tool_prints []) [lit ''.pylintrc'']"
  let ?r = "[(lit ''Python'',
           [Result \<lparr>file = lit ''a.py'',
                    issues = lit ''Pylint Issues:'' @ [0x0A, 0x0A, 0x0A] @ lit ''Flake8 Issues:'' @ [0x0A],
                    error_count = 0, warning_count = 0, rating = Some (lit ''Good'')\<rparr>]),
          (lit ''JavaScript'', []), (lit ''HTML'', []), (lit ''CSS'', []), (lit ''Java'', [])]"
  have h1: "clone_from ?e (lit ''https://example.org/repo.git'') = Inr mixed_checkout"
    by (simp add: env_with_def)
  have h2: "fst (analyze_repo ?e (lit ''https://example.org/repo.git'') empty_world) = Inr ?r"
    by (simp add: mixed_checkout_def repo_eval analyzer_eval string_eval run_eval)
  have d: "dispatched_to (lit ''Java'') (walk_files (os_walk [] mixed_checkout)) = []"
    by (simp add: mixed_checkout_def dispatched_to_def repo_eval string_eval)
  from report_keys [OF h1 h2] h1 h2 d show ?thesis
    by simp
qed

end
